theory Spec2Isabelle
  imports Complex_Main "HOL-Library.AList" "HOL-Library.Sublist"
begin

section \<open>Python values and exceptions\<close>

text \<open>
  The exceptions that the driver (\<^verbatim>\<open>src/main.py\<close>) and the frame loader
  (\<^verbatim>\<open>src/global_optimization/CellUniverse.py\<close>) raise themselves or receive from the
  interpreter. A raise is a value \<open>Inl e\<close>.
\<close>

datatype error =
    Exception string
  | ValueError string
  | KeyError string
  | TypeError
  | IndexError
  | AttributeError
  | ZeroDivisionError
  | UnboundLocalError string
  | OverflowError
  | OSError

type_synonym path = string

text \<open>
  A Python float is an IEEE 754 double: a finite value (a rational, \<open>Finite 0\<close> being
  \<^verbatim>\<open>0.0\<close>), the negative zero, an infinity or NaN. The arithmetic on doubles rounds, so it is not written
  out here but taken as a parameter: the conversion of an integer (\<open>None\<close> where CPython
  raises \<^verbatim>\<open>OverflowError\<close>: "int too large to convert to float"), the true division of two
  integers with a divisor other than zero (\<open>None\<close> for "integer division result too large
  for a float"), and the division, product, sum and difference of two doubles, which
  never raise. Every theorem holds for every such arithmetic, the one of the machine
  among them.
\<close>

datatype pyfloat = Finite rat | NegZero | PosInf | NegInf | NaN

text \<open>\<^verbatim>\<open>x == 0.0\<close>: both zeros are equal to zero.\<close>

fun is_zero :: "pyfloat \<Rightarrow> bool" where
  "is_zero (Finite x) = (x = 0)"
| "is_zero NegZero = True"
| "is_zero _ = False"

record fpu =
  int_to_float :: "int \<Rightarrow> pyfloat option"
  int_truediv :: "int \<Rightarrow> int \<Rightarrow> pyfloat option"
  float_truediv :: "pyfloat \<Rightarrow> pyfloat \<Rightarrow> pyfloat"
  float_mul :: "pyfloat \<Rightarrow> pyfloat \<Rightarrow> pyfloat"
  float_add :: "pyfloat \<Rightarrow> pyfloat \<Rightarrow> pyfloat"
  float_sub :: "pyfloat \<Rightarrow> pyfloat \<Rightarrow> pyfloat"

text \<open>
  The namespace that \<^verbatim>\<open>parse_args\<close> returns, one field per command-line option.
  An option whose default is \<^verbatim>\<open>None\<close> is an \<open>option\<close>; Python's unbounded integers are
  \<open>int\<close>.
\<close>

record args =
  debug :: "path option"
  frame_first :: int
  frame_last :: int
  dist_opt :: bool
  workers :: int
  jobs :: int
  keep :: int
  strategy :: string
  cluster :: string
  no_parallel :: bool
  global_optimization :: bool
  binary :: bool
  graySynthetic :: bool
  phaseContrast :: bool
  auto_temp :: int
  start_temp :: "pyfloat option"
  end_temp :: "pyfloat option"
  auto_meth :: string
  residual :: "path option"
  lineage_file :: "path option"
  continue_from :: int
  seed :: "int option"
  batches :: int
  input :: string
  output_dir :: path
  config :: path
  initial :: path
  bestfit :: path

section \<open>Listing the input frames\<close>

text \<open>
  What the loaders ask of the file system: the path that Python's \<^verbatim>\<open>%\<close> operator
  makes of the input pattern and a frame number (and a slice number), which raises when
  the pattern does not take the arguments, and whether that path exists and is a file.
\<close>

record fsys =
  format_input :: "string \<Rightarrow> int \<Rightarrow> error + path"
  format_input_z :: "string \<Rightarrow> int \<Rightarrow> int \<Rightarrow> error + path"
  is_file :: "path \<Rightarrow> bool"

definition not_found :: "path \<Rightarrow> error" where
  "not_found file = ValueError (''Input file not found '' @ [CHR 0x22] @ file @ [CHR 0x22])"

text \<open>
  \<^verbatim>\<open>get_inputfiles\<close> of main.py: the loop \<^verbatim>\<open>for i in count(args.frame_first)\<close> has no
  bound of its own, so the model is a partial function and \<open>None\<close> stands for a loop
  that never ends.
\<close>

partial_function (option) get_inputfiles_loop ::
  "fsys \<Rightarrow> string \<Rightarrow> int \<Rightarrow> int \<Rightarrow> int \<Rightarrow> path list \<Rightarrow> (error + path list) option"
where
  "get_inputfiles_loop fs pat ff fl i inputfiles =
     (case format_input fs pat i of
        Inl e \<Rightarrow> Some (Inl e)
      | Inr file \<Rightarrow>
          if is_file fs file then
            (if i = fl then Some (Inr (inputfiles @ [file]))
             else get_inputfiles_loop fs pat ff fl (i + 1) (inputfiles @ [file]))
          else if fl < 0 \<and> ff \<noteq> i then Some (Inr inputfiles)
          else Some (Inl (not_found file)))"

definition get_inputfiles :: "fsys \<Rightarrow> args \<Rightarrow> (error + path list) option" where
  "get_inputfiles fs a =
     (if frame_first a > frame_last a \<and> frame_last a \<ge> 0 then
        Some (Inl (ValueError ''Invalid interval: frame_first must be less than frame_last''))
      else if frame_first a < 0 then
        Some (Inl (ValueError ''Invalid interval: frame_first must be greater or equal to 0''))
      else get_inputfiles_loop fs (input a) (frame_first a) (frame_last a) (frame_first a) [])"

text \<open>
  \<^verbatim>\<open>get_image_file_paths\<close> of CellUniverse.py. The inner loop collects the \<open>z_slices\<close>
  files of frame \<open>i\<close>; the outer loop runs while \<^verbatim>\<open>last_frame == -1 or i <= last_frame\<close>
  and hands an exception, with the stacks collected so far, to the handler.
\<close>

fun input_file_stack :: "fsys \<Rightarrow> string \<Rightarrow> int \<Rightarrow> int \<Rightarrow> int list \<Rightarrow> path list \<Rightarrow> error + path list" where
  "input_file_stack fs pat z_slices i [] stack = Inr stack"
| "input_file_stack fs pat z_slices i (z # zs) stack =
     (case (if z_slices = 1 then format_input fs pat i else format_input_z fs pat i z) of
        Inl e \<Rightarrow> Inl e
      | Inr file \<Rightarrow>
          if is_file fs file then input_file_stack fs pat z_slices i zs (stack @ [file])
          else Inl (not_found file))"

partial_function (option) image_path_loop ::
  "fsys \<Rightarrow> string \<Rightarrow> int \<Rightarrow> int \<Rightarrow> int \<Rightarrow> path list list \<Rightarrow> (error option \<times> path list list) option"
where
  "image_path_loop fs pat z_slices last_frame i image_path_stack =
     (if last_frame = -1 \<or> i \<le> last_frame then
        (case input_file_stack fs pat z_slices i [0 .. z_slices - 1] [] of
           Inl e \<Rightarrow> Some (Some e, image_path_stack)
         | Inr stack \<Rightarrow>
             image_path_loop fs pat z_slices last_frame (i + 1) (image_path_stack @ [stack]))
      else Some (None, image_path_stack))"

definition get_image_file_paths ::
  "fsys \<Rightarrow> string \<Rightarrow> int \<Rightarrow> int \<Rightarrow> int \<Rightarrow> (error + path list list) option" where
  "get_image_file_paths fs input_pattern first_frame last_frame z_slices =
     (case image_path_loop fs input_pattern z_slices last_frame first_frame [] of
        None \<Rightarrow> None
      | Some (None, image_path_stack) \<Rightarrow> Some (Inr image_path_stack)
      | Some (Some e, image_path_stack) \<Rightarrow>
          (case e of
             ValueError m \<Rightarrow>
               if last_frame \<noteq> -1 \<and> int (length image_path_stack) \<noteq> last_frame - first_frame + 1
               then Some (Inl e) else Some (Inr image_path_stack)
           | _ \<Rightarrow> Some (Inl e)))"

subsection \<open>A concrete directory\<close>

text \<open>
  A pattern \<^verbatim>\<open>"img%d.png"\<close> formats frame \<open>i\<close> as \<^verbatim>\<open>img<i>.png\<close>; with a slice number the
  pattern \<^verbatim>\<open>"img%d_%d.png"\<close> is meant. Only the frames below ten are needed. The
  directory is the list of the paths that exist.
\<close>

definition digit :: "int \<Rightarrow> string" where
  "digit i = [''0123456789'' ! nat i]"

definition frame_path :: "int \<Rightarrow> path" where
  "frame_path i = ''img'' @ digit i @ ''.png''"

definition slice_path :: "int \<Rightarrow> int \<Rightarrow> path" where
  "slice_path i z = ''img'' @ digit i @ ''_'' @ digit z @ ''.png''"

definition demo_fs :: "path list \<Rightarrow> fsys" where
  "demo_fs present =
     \<lparr> format_input = (\<lambda>pat i. Inr (frame_path i)),
       format_input_z = (\<lambda>pat i z. Inr (slice_path i z)),
       is_file = (\<lambda>p. p \<in> set present) \<rparr>"

definition demo_args :: args where
  "demo_args =
     \<lparr> debug = None, frame_first = 0, frame_last = -1, dist_opt = False, workers = 1, jobs = 1,
       keep = 1, strategy = ''best-wins'', cluster = [], no_parallel = True,
       global_optimization = True, binary = True, graySynthetic = False,
       phaseContrast = False, auto_temp = 1, start_temp = None, end_temp = None,
       auto_meth = ''none'', residual = None, lineage_file = None, continue_from = 0,
       seed = Some 7, batches = 1, input = ''img%d.png'', output_dir = ''out'',
       config = ''config.json'', initial = ''cells.csv'', bestfit = ''bestfit'' \<rparr>"

section \<open>Values of the configuration\<close>

text \<open>
  The configuration is what \<^verbatim>\<open>jsonc.load\<close> returns: \<^verbatim>\<open>None\<close>, booleans, integers of any
  size, floats, strings, lists, and dictionaries with string keys in insertion order.
\<close>

datatype pyval =
    PNone
  | PBool bool
  | PInt int
  | PFloat pyfloat
  | PStr string
  | PList "pyval list"
  | PDict "(string \<times> pyval) list"

text \<open>An \<^verbatim>\<open>int\<close> (a \<^verbatim>\<open>bool\<close> is one), and a number: an \<^verbatim>\<open>int\<close> or a \<^verbatim>\<open>float\<close>.\<close>

fun as_int :: "pyval \<Rightarrow> int option" where
  "as_int (PBool b) = Some (of_bool b)"
| "as_int (PInt i) = Some i"
| "as_int _ = None"

fun is_number :: "pyval \<Rightarrow> bool" where
  "is_number (PBool b) = True"
| "is_number (PInt i) = True"
| "is_number (PFloat x) = True"
| "is_number _ = False"

text \<open>
  The conversion of an operand to a double where the other operand is a float. An
  integer of at most 53 bits is converted exactly; the result for a larger one is the
  arithmetic's. Only called on numbers.
\<close>

definition to_double :: "fpu \<Rightarrow> pyval \<Rightarrow> error + pyfloat" where
  "to_double fp v =
     (case v of
        PFloat x \<Rightarrow> Inr x
      | _ \<Rightarrow>
          (case as_int v of
             None \<Rightarrow> Inl TypeError
           | Some i \<Rightarrow>
               if \<bar>i\<bar> \<le> 2 ^ 53 then Inr (Finite (of_int i))
               else (case int_to_float fp i of None \<Rightarrow> Inl OverflowError | Some x \<Rightarrow> Inr x)))"

text \<open>\<^verbatim>\<open>d[k]\<close>, \<^verbatim>\<open>d[k] = v\<close>, \<^verbatim>\<open>k in d\<close> and \<^verbatim>\<open>d.items()\<close> for a string key \<open>k\<close>.\<close>

definition getitem :: "pyval \<Rightarrow> string \<Rightarrow> error + pyval" where
  "getitem d k =
     (case d of
        PDict kvs \<Rightarrow> (case map_of kvs k of None \<Rightarrow> Inl (KeyError k) | Some v \<Rightarrow> Inr v)
      | _ \<Rightarrow> Inl TypeError)"

definition setitem :: "pyval \<Rightarrow> string \<Rightarrow> pyval \<Rightarrow> error + pyval" where
  "setitem d k v =
     (case d of
        PDict kvs \<Rightarrow> Inr (PDict (AList.update k v kvs))
      | _ \<Rightarrow> Inl TypeError)"

definition contains :: "string \<Rightarrow> pyval \<Rightarrow> error + bool" where
  "contains k d =
     (case d of
        PDict kvs \<Rightarrow> Inr (k \<in> set (map fst kvs))
      | PList xs \<Rightarrow> Inr (PStr k \<in> set xs)
      | PStr s \<Rightarrow> Inr (sublist k s)
      | _ \<Rightarrow> Inl TypeError)"

definition dict_items :: "pyval \<Rightarrow> error + (string \<times> pyval) list" where
  "dict_items d = (case d of PDict kvs \<Rightarrow> Inr kvs | _ \<Rightarrow> Inl AttributeError)"

text \<open>
  \<^verbatim>\<open>a / b\<close> as CPython evaluates it. Any operand that is not a number is a type error.
  Two integers: a zero divisor raises \<^verbatim>\<open>ZeroDivisionError\<close>, else the quotient is rounded
  to a double and raises \<^verbatim>\<open>OverflowError\<close> when it is too large. With a float on either
  side both operands are converted to doubles first, the left one before the right one
  (an integer that is too large raises \<^verbatim>\<open>OverflowError\<close>), then a zero divisor raises
  \<^verbatim>\<open>ZeroDivisionError\<close>, else the doubles are divided.
\<close>

definition truediv :: "fpu \<Rightarrow> pyval \<Rightarrow> pyval \<Rightarrow> error + pyval" where
  "truediv fp a b =
     (if \<not> is_number a \<or> \<not> is_number b then Inl TypeError
      else
        (case (as_int a, as_int b) of
           (Some i, Some j) \<Rightarrow>
             if j = 0 then Inl ZeroDivisionError
             else (case int_truediv fp i j of
                     None \<Rightarrow> Inl OverflowError
                   | Some q \<Rightarrow> Inr (PFloat q))
         | _ \<Rightarrow>
             (case to_double fp a of
                Inl e \<Rightarrow> Inl e
              | Inr x \<Rightarrow>
                  (case to_double fp b of
                     Inl e \<Rightarrow> Inl e
                   | Inr y \<Rightarrow>
                       if is_zero y then Inl ZeroDivisionError
                       else Inr (PFloat (float_truediv fp x y))))))"

text \<open>
  \<^verbatim>\<open>a * b\<close>: the product of two integers is exact; with a float both operands are
  converted and multiplied as doubles; a string or a list times an integer is repeated;
  anything else is a type error.
\<close>

definition py_mul :: "fpu \<Rightarrow> pyval \<Rightarrow> pyval \<Rightarrow> error + pyval" where
  "py_mul fp a b =
     (case (as_int a, as_int b) of
        (Some i, Some j) \<Rightarrow> Inr (PInt (i * j))
      | _ \<Rightarrow>
          if is_number a \<and> is_number b then
            (case to_double fp a of
               Inl e \<Rightarrow> Inl e
             | Inr x \<Rightarrow>
                 (case to_double fp b of
                    Inl e \<Rightarrow> Inl e
                  | Inr y \<Rightarrow> Inr (PFloat (float_mul fp x y))))
          else
            (case (a, as_int b) of
               (PStr t, Some n) \<Rightarrow> Inr (PStr (concat (replicate (nat n) t)))
             | (PList xs, Some n) \<Rightarrow> Inr (PList (concat (replicate (nat n) xs)))
             | _ \<Rightarrow>
                 (case (as_int a, b) of
                    (Some n, PStr t) \<Rightarrow> Inr (PStr (concat (replicate (nat n) t)))
                  | (Some n, PList xs) \<Rightarrow> Inr (PList (concat (replicate (nat n) xs)))
                  | _ \<Rightarrow> Inl TypeError)))"

text \<open>\<^verbatim>\<open>v > 0\<close>: the comparison of a number with zero is exact; NaN is not greater.\<close>

fun gt_zero :: "pyval \<Rightarrow> error + bool" where
  "gt_zero (PBool b) = Inr b"
| "gt_zero (PInt i) = Inr (0 < i)"
| "gt_zero (PFloat (Finite x)) = Inr (0 < x)"
| "gt_zero (PFloat NegZero) = Inr False"
| "gt_zero (PFloat PosInf) = Inr True"
| "gt_zero (PFloat NegInf) = Inr False"
| "gt_zero (PFloat NaN) = Inr False"
| "gt_zero _ = Inl TypeError"

text \<open>
  \<^verbatim>\<open>n + 2 * pad\<close> for an integer \<open>n\<close> (an extent of an array): exact for an integer
  \<open>pad\<close>; for a float, \<^verbatim>\<open>2 * pad\<close> and then the sum are computed on doubles.
\<close>

definition pad_extent :: "fpu \<Rightarrow> int \<Rightarrow> pyval \<Rightarrow> error + pyval" where
  "pad_extent fp n p =
     (case as_int p of
        Some k \<Rightarrow> Inr (PInt (n + 2 * k))
      | None \<Rightarrow>
          (case p of
             PFloat x \<Rightarrow>
               (case to_double fp (PInt n) of
                  Inl e \<Rightarrow> Inl e
                | Inr m \<Rightarrow> Inr (PFloat (float_add fp m (float_mul fp (Finite 2) x))))
           | _ \<Rightarrow> Inl TypeError))"

text \<open>
  What \<^verbatim>\<open>range\<close> accepts as a bound: \<^verbatim>\<open>1 - window\<close> is an integer only for an integer
  (or boolean) \<open>window\<close>.
\<close>

fun as_index :: "pyval \<Rightarrow> error + int" where
  "as_index (PBool b) = Inr (of_bool b)"
| "as_index (PInt i) = Inr i"
| "as_index _ = Inl TypeError"

text \<open>
  \<^verbatim>\<open>s.lower()\<close> on the ASCII letters (no character outside ASCII lowers to one of the
  letters of \<^verbatim>\<open>bacilli\<close>, the only string the result is compared with).
\<close>

definition lower_char :: "char \<Rightarrow> char" where
  "lower_char c =
     (if (65::nat) \<le> of_char c \<and> of_char c \<le> (90::nat) then char_of (of_char c + (32::nat)) else c)"

definition str_lower :: "pyval \<Rightarrow> error + string" where
  "str_lower v = (case v of PStr s \<Rightarrow> Inr (map lower_char s) | _ \<Rightarrow> Inl AttributeError)"

text \<open>\<^verbatim>\<open>xs[i]\<close> on a list: a negative index counts from the end.\<close>

definition py_index :: "'a list \<Rightarrow> int \<Rightarrow> error + 'a" where
  "py_index xs i =
     (let n = int (length xs); j = (if i < 0 then i + n else i)
      in if 0 \<le> j \<and> j < n then Inr (xs ! nat j) else Inl IndexError)"

text \<open>\<^verbatim>\<open>','.join(xs)\<close>, \<^verbatim>\<open>Path(p).name\<close> and \<^verbatim>\<open>d / name\<close> on paths written with \<^verbatim>\<open>/\<close>.\<close>

fun join_comma :: "string list \<Rightarrow> string" where
  "join_comma [] = []"
| "join_comma [x] = x"
| "join_comma (x # y # ys) = x @ '','' @ join_comma (y # ys)"

definition path_name :: "path \<Rightarrow> string" where
  "path_name p = rev (takeWhile (\<lambda>c. c \<noteq> CHR ''/'') (rev p))"

definition path_join :: "path \<Rightarrow> string \<Rightarrow> path" where
  "path_join d n = d @ ''/'' @ n"

definition quoted :: "string \<Rightarrow> string" where
  "quoted s = [CHR 0x22] @ s @ [CHR 0x22]"

section \<open>Arrays\<close>

text \<open>
  A numpy array is its shape and its elements in row-major order; an image is an array
  of doubles. \<^verbatim>\<open>a < c\<close> compares element by element, exactly (NaN is below nothing).
\<close>

datatype 'a ndarray = NDArray (shape_of: "nat list") (elems: "'a list")

type_synonym image = "pyfloat ndarray"
type_synonym distmap = "pyfloat ndarray"

fun float_less :: "pyfloat \<Rightarrow> rat \<Rightarrow> bool" where
  "float_less (Finite x) c = (x < c)"
| "float_less NegZero c = (0 < c)"
| "float_less NegInf c = True"
| "float_less PosInf c = False"
| "float_less NaN c = False"

definition arr_map :: "('a \<Rightarrow> 'b) \<Rightarrow> 'a ndarray \<Rightarrow> 'b ndarray" where
  "arr_map f a = NDArray (shape_of a) (map f (elems a))"

definition arr_lt :: "image \<Rightarrow> rat \<Rightarrow> bool ndarray" where
  "arr_lt a c = arr_map (\<lambda>v. float_less v c) a"

text \<open>\<^verbatim>\<open>a += 1\<close> on an array of doubles: the sum of each element and \<^verbatim>\<open>1.0\<close>.\<close>

definition arr_increment :: "fpu \<Rightarrow> distmap \<Rightarrow> distmap" where
  "arr_increment fp a = arr_map (\<lambda>v. float_add fp v (Finite 1)) a"

section \<open>Effects\<close>

text \<open>
  What a run does to the outside, in order: one event for each call that main.py makes
  to the console, the file system, numpy's generator, dask and the optimisation modules.
\<close>

datatype client = LocalClient int | ClusterClient string

datatype event =
    Stdout "pyval list"
  | ClientStarted client
  | ConfigLoaded path
  | DirMade path
  | RngSeeded int
  | LineageOpened path
  | LineageLine string
  | LineageClosed
  | DebugLine path string
  | ImageLoaded path
  | LineageCreated
  | CopiedForward
  | Padded int
  | Synthesized int
  | DistMapped int distmap
  | AutoTemp int int
  | Optimized int int pyfloat
  | LineageSaved string int
  | ImageSaved path
  | LocalOptimized

text \<open>
  The state of a run of \<^verbatim>\<open>main\<close>: the trace of events, the store of the configuration
  objects (an address is an index; \<^verbatim>\<open>config\<close> and \<^verbatim>\<open>sa_config\<close> are addresses, so two
  names of one object would show), and the local variables that the function assigns
  more than once. A local that may be read before it is bound is an \<open>option\<close>.
\<close>

type_synonym addr = nat

record ('lin, 'cmap) frame =
  trace :: "event list"
  store :: "pyval list"
  lineagefile :: "path option"
  args_now :: args
  lineage :: "'lin option"
  realimages :: "image list"
  synthimages :: "image list"
  cellmaps :: "'cmap list"
  distmaps :: "distmap option list"
  realimage :: "image option"
  synthimage :: "image option"
  cellmap :: "'cmap option"
  distmap :: "distmap option"

definition init_frame :: "args \<Rightarrow> ('lin, 'cmap) frame" where
  "init_frame a =
     \<lparr> trace = [], store = [], lineagefile = None, args_now = a, lineage = None,
       realimages = [], synthimages = [], cellmaps = [], distmaps = [],
       realimage = None, synthimage = None, cellmap = None, distmap = None \<rparr>"

text \<open>
  A statement is a function from the state to a result and the state after it; an
  exception keeps the state it was raised in.
\<close>

type_synonym ('a, 's) prog = "'s \<Rightarrow> (error + 'a) \<times> 's"

definition ret :: "'a \<Rightarrow> ('a, 's) prog" where
  "ret x s = (Inr x, s)"

definition raise :: "error \<Rightarrow> ('a, 's) prog" where
  "raise e s = (Inl e, s)"

definition lift :: "error + 'a \<Rightarrow> ('a, 's) prog" where
  "lift r s = (r, s)"

definition check :: "error option \<Rightarrow> (unit, 's) prog" where
  "check r s = (case r of None \<Rightarrow> (Inr (), s) | Some e \<Rightarrow> (Inl e, s))"

definition thn :: "('a, 's) prog \<Rightarrow> ('a \<Rightarrow> ('b, 's) prog) \<Rightarrow> ('b, 's) prog" where
  "thn m f s = (case m s of (Inl e, s') \<Rightarrow> (Inl e, s') | (Inr x, s') \<Rightarrow> f x s')"

definition nxt :: "(unit, 's) prog \<Rightarrow> ('b, 's) prog \<Rightarrow> ('b, 's) prog" where
  "nxt m n = thn m (\<lambda>_. n)"

definition get :: "('s \<Rightarrow> 'a) \<Rightarrow> ('a, 's) prog" where
  "get f s = (Inr (f s), s)"

definition modify :: "('s \<Rightarrow> 's) \<Rightarrow> (unit, 's) prog" where
  "modify f s = (Inr (), f s)"

definition emit :: "event \<Rightarrow> (unit, ('lin, 'cmap) frame) prog" where
  "emit e s = (Inr (), s\<lparr>trace := trace s @ [e]\<rparr>)"

definition bound :: "(('lin, 'cmap) frame \<Rightarrow> 'a option) \<Rightarrow> string \<Rightarrow> ('a, ('lin, 'cmap) frame) prog" where
  "bound var name s =
     (case var s of None \<Rightarrow> (Inl (UnboundLocalError name), s) | Some v \<Rightarrow> (Inr v, s))"

fun for_loop :: "('i \<Rightarrow> (unit, 's) prog) \<Rightarrow> 'i list \<Rightarrow> (unit, 's) prog" where
  "for_loop body [] = ret ()"
| "for_loop body (i # rest) = thn (body i) (\<lambda>_. for_loop body rest)"

text \<open>The objects of the store.\<close>

definition new_object :: "pyval \<Rightarrow> (addr, ('lin, 'cmap) frame) prog" where
  "new_object v s = (Inr (length (store s)), s\<lparr>store := store s @ [v]\<rparr>)"

definition deepcopy :: "addr \<Rightarrow> (addr, ('lin, 'cmap) frame) prog" where
  "deepcopy a s = new_object (store s ! a) s"

definition obj_getitem :: "addr \<Rightarrow> string \<Rightarrow> (pyval, ('lin, 'cmap) frame) prog" where
  "obj_getitem a k s = (getitem (store s ! a) k, s)"

text \<open>\<^verbatim>\<open>obj[k1][k2] = v\<close>: the inner dictionary is changed in place.\<close>

definition obj_setitem2 :: "addr \<Rightarrow> string \<Rightarrow> string \<Rightarrow> pyval \<Rightarrow> (unit, ('lin, 'cmap) frame) prog" where
  "obj_setitem2 a k1 k2 v s =
     (case getitem (store s ! a) k1 of
        Inl e \<Rightarrow> (Inl e, s)
      | Inr inner \<Rightarrow>
          (case setitem inner k2 v of
             Inl e \<Rightarrow> (Inl e, s)
           | Inr inner' \<Rightarrow>
               (case setitem (store s ! a) k1 inner' of
                  Inl e \<Rightarrow> (Inl e, s)
                | Inr outer' \<Rightarrow> (Inr (), s\<lparr>store := (store s)[a := outer']\<rparr>))))"

section \<open>The collaborators\<close>

text \<open>
  The modules that main.py imports and that are not part of these sources
  (\<^verbatim>\<open>optimization\<close>, \<^verbatim>\<open>global_optimization\<close>, \<^verbatim>\<open>lineage_funcs\<close>, \<^verbatim>\<open>cell\<close>, \<^verbatim>\<open>jsonc\<close>) and the
  libraries (numpy, scipy, PIL, matplotlib, dask, pathlib, time) are parameters: each
  call is a function of its arguments that returns a value or raises. The lineage, the
  node list of a frame and a cell map are opaque. Of a lineage the driver uses the number
  of its frames, the nodes and the simulation configuration of a frame, the shift of the
  cells of one frame by the padding (the loop over \<^verbatim>\<open>node_map.values()\<close>), and
  \<^verbatim>\<open>copy_forward\<close>. The file handle \<^verbatim>\<open>lineagefile\<close> that some calls take is not an
  argument here; \<^verbatim>\<open>global_optimize.totalCostDiff\<close>, which the driver sets before the call,
  is the first argument of \<open>global_optimize\<close>.
\<close>

record ('lin, 'nodes, 'cmap) env =
  files :: fsys
  arith :: fpu
  time_start :: pyfloat
  time_end :: pyfloat
  jsonc_load :: "path \<Rightarrow> error + pyval"
  checkconfig :: "pyval \<Rightarrow> error option"
  is_dir :: "path \<Rightarrow> bool"
  mkdir :: "path \<Rightarrow> error option"
  open_write :: "path \<Rightarrow> error option"
  np_random_seed :: "int \<Rightarrow> error option"
  dask_client :: "client \<Rightarrow> error option"
  load_image :: "path \<Rightarrow> error + image"
  create_lineage :: "path list \<Rightarrow> image list \<Rightarrow> pyval \<Rightarrow> args \<Rightarrow> error + 'lin"
  frames_len :: "'lin \<Rightarrow> nat"
  frame_nodes :: "'lin \<Rightarrow> nat \<Rightarrow> 'nodes"
  frame_simulation_config :: "'lin \<Rightarrow> nat \<Rightarrow> pyval"
  shift_cells :: "nat \<Rightarrow> pyval \<Rightarrow> 'lin \<Rightarrow> error + 'lin"
  copy_forward :: "'lin \<Rightarrow> error + 'lin"
  np_pad :: "image \<Rightarrow> pyval \<Rightarrow> pyval \<Rightarrow> error + image"
  generate_synthetic_image :: "'nodes \<Rightarrow> pyval list \<Rightarrow> pyval \<Rightarrow> error + image \<times> 'cmap"
  distance_transform_edt :: "bool ndarray \<Rightarrow> error + distmap"
  np_divide_other :: "distmap \<Rightarrow> pyval \<Rightarrow> error + distmap"
  auto_temp_schedule ::
    "path list \<Rightarrow> 'lin \<Rightarrow> image list \<Rightarrow> image list \<Rightarrow> 'cmap list \<Rightarrow> distmap option list
      \<Rightarrow> int \<Rightarrow> int \<Rightarrow> args \<Rightarrow> pyval \<Rightarrow> error + pyfloat \<times> pyfloat"
  auto_temp_schedule_frame :: "int \<Rightarrow> int \<Rightarrow> error + bool"
  dist_objective :: "image \<Rightarrow> image \<Rightarrow> distmap \<Rightarrow> 'cmap \<Rightarrow> pyval \<Rightarrow> error + pyfloat"
  objective :: "image \<Rightarrow> image \<Rightarrow> 'cmap \<Rightarrow> pyval \<Rightarrow> pyval \<Rightarrow> error + pyfloat"
  global_optimize ::
    "pyfloat \<Rightarrow> path list \<Rightarrow> 'lin \<Rightarrow> image list \<Rightarrow> image list \<Rightarrow> 'cmap list \<Rightarrow> distmap option list
      \<Rightarrow> int \<Rightarrow> int \<Rightarrow> args \<Rightarrow> pyval \<Rightarrow> pyval \<Rightarrow> client option
      \<Rightarrow> error + 'lin \<times> image list \<times> distmap option list \<times> 'cmap list"
  save_lineage :: "string \<Rightarrow> 'nodes \<Rightarrow> error option"
  make_colormap :: "pyval \<Rightarrow> pyval \<Rightarrow> error option"
  save_bestfit :: "path \<Rightarrow> image \<Rightarrow> error option"
  save_overlay :: "path \<Rightarrow> image \<Rightarrow> 'nodes \<Rightarrow> error option"
  save_residual :: "path \<Rightarrow> image \<Rightarrow> image \<Rightarrow> pyval \<Rightarrow> pyval \<Rightarrow> error option"
  local_optimize :: "path list \<Rightarrow> pyval \<Rightarrow> args \<Rightarrow> client option \<Rightarrow> error option"

section \<open>main.py\<close>

subsection \<open>\<^verbatim>\<open>load_config\<close>\<close>

definition load_config :: "('lin, 'nodes, 'cmap) env \<Rightarrow> path \<Rightarrow> (pyval, ('lin, 'cmap) frame) prog" where
  "load_config env config_file =
     thn (lift (jsonc_load env config_file)) (\<lambda>cfg.
     nxt (emit (ConfigLoaded config_file))
       (case cfg of
          PDict kvs \<Rightarrow>
            if ''global.cellType'' \<notin> set (map fst kvs) then
              raise (ValueError (''Invalid config: missing '' @ quoted ''global.cellType''))
            else if ''global.pixelsPerMicron'' \<notin> set (map fst kvs) then
              raise (ValueError (''Invalid config: missing '' @ quoted ''global.pixelsPerMicron''))
            else if ''global.framesPerSecond'' \<notin> set (map fst kvs) then
              raise (ValueError (''Invalid config: missing '' @ quoted ''global.framesPerSecond''))
            else
              thn (lift (getitem cfg ''global.cellType'')) (\<lambda>ct.
              thn (lift (str_lower ct)) (\<lambda>l.
                if l = ''bacilli'' then nxt (check (checkconfig env cfg)) (ret cfg)
                else raise (ValueError ''Invalid config: unsupported cell type'')))
        | _ \<Rightarrow> raise (ValueError ''Invalid config: must be a dictionary'')))"

subsection \<open>\<^verbatim>\<open>save_output\<close>\<close>

text \<open>
  The three pictures of a frame. How the pixels are made (the scaling to bytes, the
  outlines of the cells that are not dormant, the colour map of the residual) is inside
  the three collaborators that write them.
\<close>

definition save_output ::
  "('lin, 'nodes, 'cmap) env \<Rightarrow> string \<Rightarrow> image \<Rightarrow> image \<Rightarrow> 'nodes \<Rightarrow> args \<Rightarrow> pyval
     \<Rightarrow> (unit, ('lin, 'cmap) frame) prog" where
  "save_output env image_name synthimg realimg cellnodes a cfg =
     thn (lift (getitem cfg ''residual.vmin'')) (\<lambda>residual_vmin.
     thn (lift (getitem cfg ''residual.vmax'')) (\<lambda>residual_vmax.
     nxt (if residual a \<noteq> None then check (make_colormap env residual_vmin residual_vmax) else ret ())
    (nxt (check (save_bestfit env (path_join (bestfit a) image_name) synthimg))
    (nxt (emit (ImageSaved (path_join (bestfit a) image_name)))
    (nxt (check (save_overlay env (path_join (output_dir a) image_name) realimg cellnodes))
    (nxt (emit (ImageSaved (path_join (output_dir a) image_name)))
         (case residual a of
            None \<Rightarrow> ret ()
          | Some r \<Rightarrow>
              nxt (check (save_residual env (path_join r image_name) realimg synthimg residual_vmin residual_vmax))
                  (emit (ImageSaved (path_join r image_name))))))))))"

subsection \<open>The start of \<^verbatim>\<open>main\<close>, up to the list of input files\<close>

definition temp_conflict :: error where
  "temp_conflict = Exception ''when auto_temp is set to 1(default value), starting temperature or ending temperature should not be set manually''"

definition start_client :: "('lin, 'nodes, 'cmap) env \<Rightarrow> args \<Rightarrow> (client option, ('lin, 'cmap) frame) prog" where
  "start_client env a =
     (if \<not> no_parallel a then
        (let cl = (if cluster a = [] then LocalClient (workers a) else ClusterClient (cluster a))
         in nxt (check (dask_client env cl)) (nxt (emit (ClientStarted cl)) (ret (Some cl))))
      else ret None)"

definition make_dir :: "('lin, 'nodes, 'cmap) env \<Rightarrow> path \<Rightarrow> (unit, ('lin, 'cmap) frame) prog" where
  "make_dir env d =
     thn (get trace) (\<lambda>tr.
       if \<not> (is_dir env d \<or> DirMade d \<in> set tr)
       then nxt (check (mkdir env d)) (emit (DirMade d))
       else ret ())"

text \<open>
  \<^verbatim>\<open>int(start * 1000) % (2**32)\<close>: the product is a double; \<^verbatim>\<open>int\<close> rounds a finite one
  towards zero and raises on an infinity and on NaN.
\<close>

definition time_seed :: "fpu \<Rightarrow> pyfloat \<Rightarrow> error + int" where
  "time_seed fp start =
     (case float_mul fp start (Finite 1000) of
        Finite x \<Rightarrow> Inr ((if 0 \<le> x then \<lfloor>x\<rfloor> else \<lceil>x\<rceil>) mod 2 ^ 32)
      | NegZero \<Rightarrow> Inr 0
      | NaN \<Rightarrow> Inl (ValueError ''cannot convert float NaN to integer'')
      | _ \<Rightarrow> Inl OverflowError)"

definition set_image_type :: "args \<Rightarrow> addr \<Rightarrow> (unit, ('lin, 'cmap) frame) prog" where
  "set_image_type a c =
     thn (obj_getitem c ''simulation'') (\<lambda>simulation_config.
       if graySynthetic a then obj_setitem2 c ''simulation'' ''image.type'' (PStr ''graySynthetic'')
       else if phaseContrast a then obj_setitem2 c ''simulation'' ''image.type'' (PStr ''phaseContrastImage'')
       else if binary a then obj_setitem2 c ''simulation'' ''image.type'' (PStr ''binary'')
       else raise (ValueError ''Invalid Command: Synthetic image type must be specified''))"

definition prepare_dirs :: "('lin, 'nodes, 'cmap) env \<Rightarrow> args \<Rightarrow> (unit, ('lin, 'cmap) frame) prog" where
  "prepare_dirs env a =
     nxt (make_dir env (output_dir a))
    (nxt (make_dir env (bestfit a))
         (case residual a of None \<Rightarrow> ret () | Some r \<Rightarrow> make_dir env r))"

definition seed_rng :: "('lin, 'nodes, 'cmap) env \<Rightarrow> args \<Rightarrow> (unit, ('lin, 'cmap) frame) prog" where
  "seed_rng env a =
     thn (lift (time_seed (arith env) (time_start env))) (\<lambda>t.
       let sd = (case seed a of None \<Rightarrow> t | Some n \<Rightarrow> n)
       in nxt (check (np_random_seed env sd))
         (nxt (emit (RngSeeded sd))
              (emit (Stdout [PStr ''Seed: {}'', PInt sd]))))"

text \<open>Lines 175 to 222: the result is the client, the address of \<^verbatim>\<open>config\<close> and the cell type.\<close>

definition before_files ::
  "('lin, 'nodes, 'cmap) env \<Rightarrow> args \<Rightarrow> (client option \<times> addr \<times> string, ('lin, 'cmap) frame) prog" where
  "before_files env a =
     (if (start_temp a \<noteq> None \<or> end_temp a \<noteq> None) \<and> auto_temp a = 1 then raise temp_conflict
      else
        thn (start_client env a) (\<lambda>cl.
        thn (load_config env (config a)) (\<lambda>cfg.
        thn (new_object cfg) (\<lambda>c.
        nxt (set_image_type a c)
       (nxt (prepare_dirs env a)
       (nxt (seed_rng env a)
       (thn (obj_getitem c ''global.cellType'') (\<lambda>ct.
        thn (lift (str_lower ct)) (\<lambda>celltype.
        ret (cl, c, celltype))))))))))"

subsection \<open>The derived annealing configuration\<close>

definition keys_to_modify :: "string list" where
  "keys_to_modify =
     [''modification.x.mu'', ''modification.y.mu'', ''modification.width.mu'',
      ''modification.length.mu'', ''modification.rotation.mu'',
      ''modification.x.sigma'', ''modification.y.sigma'', ''modification.width.sigma'',
      ''modification.length.sigma'', ''modification.rotation.sigma'']"

text \<open>
  The loop over \<^verbatim>\<open>sa_config["perturbation"].items()\<close>: the assignment replaces the value
  of a key that is there, so the items that follow are the original ones.
\<close>

fun scale_perturbation ::
  "fpu \<Rightarrow> addr \<Rightarrow> (string \<times> pyval) list \<Rightarrow> (unit, ('lin, 'cmap) frame) prog" where
  "scale_perturbation fp sa [] = ret ()"
| "scale_perturbation fp sa (kv # items) =
     nxt (if fst kv \<in> set keys_to_modify then
            thn (obj_getitem sa ''iteration_per_cell'') (\<lambda>ipc.
            thn (lift (truediv fp (snd kv) ipc)) (\<lambda>q.
            obj_setitem2 sa ''perturbation'' (fst kv) q))
          else ret ())
         (scale_perturbation fp sa items)"

definition derive_sa_config :: "fpu \<Rightarrow> addr \<Rightarrow> (addr, ('lin, 'cmap) frame) prog" where
  "derive_sa_config fp c =
     thn (deepcopy c) (\<lambda>sa.
     thn (obj_getitem sa ''perturbation'') (\<lambda>p.
     thn (lift (dict_items p)) (\<lambda>items.
     nxt (scale_perturbation fp sa items) (ret sa))))"

subsection \<open>The global path: before the window loop\<close>

text \<open>The locals of the global path that the loop only reads. \<open>pad\<close> is bound on one branch only.\<close>

record ctx =
  imagefiles :: "path list"
  sa_config :: addr
  window :: pyval
  sim_start :: int
  shape :: "pyval list"
  pad :: "pyval option"
  iteration_per_cell :: pyval
  useDistanceObjective :: bool
  client_of :: "client option"

fun load_images :: "('lin, 'nodes, 'cmap) env \<Rightarrow> path list \<Rightarrow> (unit, ('lin, 'cmap) frame) prog" where
  "load_images env [] = ret ()"
| "load_images env (f # fs) =
     thn (lift (load_image env f)) (\<lambda>img.
     nxt (emit (ImageLoaded f))
    (nxt (modify (\<lambda>s. s\<lparr>realimages := realimages s @ [img]\<rparr>))
         (load_images env fs)))"

definition shift_frame :: "('lin, 'nodes, 'cmap) env \<Rightarrow> pyval \<Rightarrow> nat \<Rightarrow> (unit, ('lin, 'cmap) frame) prog" where
  "shift_frame env p i =
     thn (bound lineage ''lineage'') (\<lambda>l.
     thn (lift (shift_cells env i p l)) (\<lambda>l'.
     modify (\<lambda>s. s\<lparr>lineage := Some l'\<rparr>)))"

text \<open>Lines 269 to 276: the result is the binding of \<open>pad\<close> and the shape.\<close>

definition apply_padding ::
  "('lin, 'nodes, 'cmap) env \<Rightarrow> addr \<Rightarrow> nat list \<Rightarrow> (pyval option \<times> pyval list, ('lin, 'cmap) frame) prog" where
  "apply_padding env sa sh =
     thn (obj_getitem sa ''simulation'') (\<lambda>sim.
     thn (lift (contains ''padding'' sim)) (\<lambda>has.
       if has then
         thn (lift (getitem sim ''padding'')) (\<lambda>p.
         thn (lift (py_index sh 0)) (\<lambda>h.
         thn (lift (pad_extent (arith env) (int h) p)) (\<lambda>h'.
         thn (lift (py_index sh 1)) (\<lambda>w.
         thn (lift (pad_extent (arith env) (int w) p)) (\<lambda>w'.
         thn (bound lineage ''lineage'') (\<lambda>l.
         nxt (for_loop (shift_frame env p) [0 ..< frames_len env l])
             (ret (Some p, [h', w']))))))))
       else ret (None, map (\<lambda>n. PInt (int n)) sh)))"

text \<open>Lines 258 to 282, with the derived configuration at the address \<open>sa\<close>.\<close>

definition prepare_loop ::
  "('lin, 'nodes, 'cmap) env \<Rightarrow> args \<Rightarrow> client option \<Rightarrow> path list \<Rightarrow> addr \<Rightarrow> (ctx, ('lin, 'cmap) frame) prog" where
  "prepare_loop env a cl files_in sa =
     nxt (load_images env files_in)
    (thn (get (\<lambda>s. s)) (\<lambda>s0.
     thn (lift (create_lineage env files_in (realimages s0) (store s0 ! sa) a)) (\<lambda>l.
     nxt (emit LineageCreated)
    (nxt (modify (\<lambda>s. s\<lparr>lineage := Some l\<rparr>))
    (thn (obj_getitem sa ''global_optimizer.window_size'') (\<lambda>win.
     nxt (emit (Stdout [PInt (continue_from a - frame_first a)]))
    (thn (lift (py_index (realimages s0) 0)) (\<lambda>img0.
     thn (apply_padding env sa (shape_of img0)) (\<lambda>ps.
     nxt (modify (\<lambda>s. s\<lparr>synthimages := [], cellmaps := [], distmaps := []\<rparr>))
    (thn (obj_getitem sa ''iteration_per_cell'') (\<lambda>ipc.
     nxt (if \<not> dist_opt a
          then modify (\<lambda>s. s\<lparr>distmaps := replicate (length (realimages s)) None\<rparr>)
          else ret ())
         (ret \<lparr> imagefiles = files_in, sa_config = sa, window = win,
                sim_start = continue_from a - frame_first a, shape = snd ps, pad = fst ps,
                iteration_per_cell = ipc, useDistanceObjective = dist_opt a,
                client_of = cl \<rparr>))))))))))))"

text \<open>Lines 237 to 282: the derived configuration is made first.\<close>

definition prepare ::
  "('lin, 'nodes, 'cmap) env \<Rightarrow> args \<Rightarrow> client option \<Rightarrow> addr \<Rightarrow> path list \<Rightarrow> (ctx, ('lin, 'cmap) frame) prog" where
  "prepare env a cl c files_in =
     thn (derive_sa_config (arith env) c) (prepare_loop env a cl files_in)"

subsection \<open>The window loop\<close>

text \<open>\<^verbatim>\<open>lineage.frames[i]\<close>: the nodes and the simulation configuration of the frame.\<close>

definition frame_at :: "('lin, 'nodes, 'cmap) env \<Rightarrow> int \<Rightarrow> ('nodes \<times> pyval, ('lin, 'cmap) frame) prog" where
  "frame_at env i =
     thn (bound lineage ''lineage'') (\<lambda>l.
     thn (lift (py_index [0 ..< frames_len env l] i)) (\<lambda>j.
     ret (frame_nodes env l j, frame_simulation_config env l j)))"

definition forward :: "('lin, 'nodes, 'cmap) env \<Rightarrow> ctx \<Rightarrow> int \<Rightarrow> int \<Rightarrow> (unit, ('lin, 'cmap) frame) prog" where
  "forward env cx ws we =
     (if sim_start cx \<le> ws then
        (if 1 < we then
           thn (bound lineage ''lineage'') (\<lambda>l.
           thn (lift (copy_forward env l)) (\<lambda>l'.
           nxt (modify (\<lambda>s. s\<lparr>lineage := Some l'\<rparr>)) (emit CopiedForward)))
         else ret ())
      else ret ())"

definition pad_image :: "('lin, 'nodes, 'cmap) env \<Rightarrow> ctx \<Rightarrow> int \<Rightarrow> (unit, ('lin, 'cmap) frame) prog" where
  "pad_image env cx we =
     thn (lift (case pad cx of None \<Rightarrow> Inl (UnboundLocalError ''pad'') | Some p \<Rightarrow> Inr p)) (\<lambda>p.
     thn (lift (gt_zero p)) (\<lambda>positive.
       if positive then
         thn (get realimages) (\<lambda>imgs.
         thn (lift (py_index imgs (we - 1))) (\<lambda>img.
         thn (frame_at env (we - 1)) (\<lambda>fr.
         thn (lift (getitem (snd fr) ''background.color'')) (\<lambda>bg.
         thn (lift (np_pad env img p bg)) (\<lambda>img'.
         thn (lift (py_index [0 ..< length imgs] (we - 1))) (\<lambda>j.
         nxt (modify (\<lambda>s. s\<lparr>realimages := (realimages s)[j := img']\<rparr>))
             (emit (Padded (we - 1)))))))))
       else ret ()))"

definition synthesize :: "('lin, 'nodes, 'cmap) env \<Rightarrow> ctx \<Rightarrow> int \<Rightarrow> (unit, ('lin, 'cmap) frame) prog" where
  "synthesize env cx we =
     thn (get realimages) (\<lambda>imgs.
     thn (lift (py_index imgs (we - 1))) (\<lambda>img.
     nxt (modify (\<lambda>s. s\<lparr>realimage := Some img\<rparr>))
    (thn (frame_at env (we - 1)) (\<lambda>fr.
     thn (lift (generate_synthetic_image env (fst fr) (shape cx) (snd fr))) (\<lambda>sc.
     nxt (emit (Synthesized (we - 1)))
         (modify (\<lambda>s. s\<lparr>synthimage := Some (fst sc), cellmap := Some (snd sc),
                         synthimages := synthimages s @ [fst sc],
                         cellmaps := cellmaps s @ [snd sc]\<rparr>)))))))"

text \<open>
  \<^verbatim>\<open>distmap /= c\<close>: numpy divides each element by the scalar as a double, and a zero
  divisor gives an infinity or NaN, no exception. That is what happens for a float and
  for an integer that a double holds exactly; what numpy does with any other object is
  the collaborator's.
\<close>

definition divide_by :: "('lin, 'nodes, 'cmap) env \<Rightarrow> distmap \<Rightarrow> pyval \<Rightarrow> error + distmap" where
  "divide_by env d c =
     (case c of
        PFloat y \<Rightarrow> Inr (arr_map (\<lambda>v. float_truediv (arith env) v y) d)
      | _ \<Rightarrow>
          (case as_int c of
             Some i \<Rightarrow>
               if \<bar>i\<bar> \<le> 2 ^ 53
               then Inr (arr_map (\<lambda>v. float_truediv (arith env) v (Finite (of_int i))) d)
               else np_divide_other env d c
           | None \<Rightarrow> np_divide_other env d c))"

text \<open>Lines 297 to 302.\<close>

definition distance_map :: "('lin, 'nodes, 'cmap) env \<Rightarrow> ctx \<Rightarrow> int \<Rightarrow> (unit, ('lin, 'cmap) frame) prog" where
  "distance_map env cx we =
     (if useDistanceObjective cx then
        thn (bound realimage ''realimage'') (\<lambda>img.
        thn (lift (distance_transform_edt env (arr_lt img (1 / 2)))) (\<lambda>d.
        thn (obj_getitem (sa_config cx) ''global.cellType'') (\<lambda>ct.
        thn (lift (str_lower ct)) (\<lambda>l.
        thn (obj_getitem (sa_config cx) (l @ ''.distanceCostDivisor'')) (\<lambda>divisor.
        thn (obj_getitem (sa_config cx) ''global.pixelsPerMicron'') (\<lambda>ppm.
        thn (lift (py_mul (arith env) divisor ppm)) (\<lambda>c.
        thn (lift (divide_by env d c)) (\<lambda>q.
        nxt (modify (\<lambda>s. s\<lparr>distmap := Some (arr_increment (arith env) q),
                            distmaps := distmaps s @ [Some (arr_increment (arith env) q)]\<rparr>))
            (emit (DistMapped (we - 1) (arr_increment (arith env) q)))))))))))
      else ret ())"

definition run_auto_temp ::
  "('lin, 'nodes, 'cmap) env \<Rightarrow> ctx \<Rightarrow> int \<Rightarrow> int \<Rightarrow> (unit, ('lin, 'cmap) frame) prog" where
  "run_auto_temp env cx ws we =
     thn (get (\<lambda>s. s)) (\<lambda>s.
     thn (bound lineage ''lineage'') (\<lambda>l.
     thn (lift (auto_temp_schedule env (imagefiles cx) l (realimages s) (synthimages s) (cellmaps s)
                  (distmaps s) ws we (args_now s) (store s ! sa_config cx))) (\<lambda>t.
     nxt (emit (AutoTemp ws we))
    (nxt (modify (\<lambda>s. s\<lparr>args_now := (args_now s)\<lparr>start_temp := Some (fst t), end_temp := Some (snd t)\<rparr>\<rparr>))
    (nxt (emit (Stdout [PStr ''auto temperature schedule finished'']))
         (emit (Stdout [PStr ''starting temperature is '', PFloat (fst t),
                        PStr ''ending temperature is '', PFloat (snd t)])))))))"

definition auto_temps :: "('lin, 'nodes, 'cmap) env \<Rightarrow> ctx \<Rightarrow> int \<Rightarrow> int \<Rightarrow> (unit, ('lin, 'cmap) frame) prog" where
  "auto_temps env cx ws we =
     thn (get args_now) (\<lambda>a.
     nxt (if auto_temp a = 1 \<and> we = 1 then
            nxt (emit (Stdout [PStr ''auto temperature schedule started'']))
                (run_auto_temp env cx 0 1)
          else ret ())
         (if auto_meth a = ''frame'' then
            thn (lift (auto_temp_schedule_frame env we 3)) (\<lambda>again.
              if again then
                nxt (emit (Stdout [PStr ''auto temperature schedule restarted'']))
                    (run_auto_temp env cx ws we)
              else ret ())
          else ret ()))"

text \<open>The block under \<^verbatim>\<open>if window_end <= len(realimages)\<close>.\<close>

definition estimate :: "('lin, 'nodes, 'cmap) env \<Rightarrow> ctx \<Rightarrow> int \<Rightarrow> int \<Rightarrow> (unit, ('lin, 'cmap) frame) prog" where
  "estimate env cx ws we =
     nxt (forward env cx ws we)
    (nxt (pad_image env cx we)
    (nxt (synthesize env cx we)
    (nxt (distance_map env cx we)
         (auto_temps env cx ws we))))"

text \<open>The block under \<^verbatim>\<open>if window_start >= sim_start\<close>.\<close>

definition baseline_cost :: "('lin, 'nodes, 'cmap) env \<Rightarrow> ctx \<Rightarrow> (pyfloat, ('lin, 'cmap) frame) prog" where
  "baseline_cost env cx =
     thn (bound realimage ''realimage'') (\<lambda>ri.
     thn (bound synthimage ''synthimage'') (\<lambda>si.
       if useDistanceObjective cx then
         thn (bound distmap ''distmap'') (\<lambda>dm.
         thn (bound cellmap ''cellmap'') (\<lambda>cm.
         thn (obj_getitem (sa_config cx) ''overlap.cost'') (\<lambda>oc.
         lift (dist_objective env ri si dm cm oc))))
       else
         thn (bound cellmap ''cellmap'') (\<lambda>cm.
         thn (obj_getitem (sa_config cx) ''overlap.cost'') (\<lambda>oc.
         thn (obj_getitem (sa_config cx) ''cell.importance'') (\<lambda>ci.
         lift (objective env ri si cm oc ci))))))"

definition dispatch :: "('lin, 'nodes, 'cmap) env \<Rightarrow> ctx \<Rightarrow> int \<Rightarrow> int \<Rightarrow> (unit, ('lin, 'cmap) frame) prog" where
  "dispatch env cx ws we =
     thn (baseline_cost env cx) (\<lambda>totalCostDiff.
     thn (get (\<lambda>s. s)) (\<lambda>s.
     thn (bound lineage ''lineage'') (\<lambda>l.
     thn (lift (global_optimize env totalCostDiff (imagefiles cx) l (realimages s) (synthimages s)
                  (cellmaps s) (distmaps s) ws we (args_now s) (store s ! sa_config cx)
                  (iteration_per_cell cx) (client_of cx))) (\<lambda>r.
     nxt (emit (Optimized ws we totalCostDiff))
         (modify (\<lambda>s. s\<lparr>lineage := Some (fst r), synthimages := fst (snd r),
                         distmaps := fst (snd (snd r)), cellmaps := snd (snd (snd r))\<rparr>))))))"

text \<open>The block under \<^verbatim>\<open>if window_start >= 0\<close>.\<close>

definition commit :: "('lin, 'nodes, 'cmap) env \<Rightarrow> ctx \<Rightarrow> int \<Rightarrow> (unit, ('lin, 'cmap) frame) prog" where
  "commit env cx ws =
     thn (lift (py_index (imagefiles cx) ws)) (\<lambda>f.
     thn (frame_at env ws) (\<lambda>fr.
     nxt (check (save_lineage env (path_name f) (fst fr)))
    (nxt (emit (LineageSaved (path_name f) ws))
    (thn (get (\<lambda>s. s)) (\<lambda>s.
     thn (lift (py_index (synthimages s) ws)) (\<lambda>si.
     thn (lift (py_index (realimages s) ws)) (\<lambda>ri.
     save_output env (path_name f) si ri (fst fr) (args_now s) (store s ! sa_config cx))))))))"

definition window_body ::
  "('lin, 'nodes, 'cmap) env \<Rightarrow> ctx \<Rightarrow> int \<Rightarrow> int \<Rightarrow> (unit, ('lin, 'cmap) frame) prog" where
  "window_body env cx w ws =
     nxt (emit (Stdout [PInt ws, PInt (ws + w)]))
    (nxt (thn (get realimages) (\<lambda>imgs.
            if ws + w \<le> int (length imgs) then estimate env cx ws (ws + w) else ret ()))
    (nxt (if sim_start cx \<le> ws then dispatch env cx ws (ws + w) else ret ())
         (if 0 \<le> ws then commit env cx ws else ret ())))"

text \<open>\<^verbatim>\<open>for window_start in range(1 - window, len(realimages))\<close>.\<close>

definition window_loop :: "('lin, 'nodes, 'cmap) env \<Rightarrow> ctx \<Rightarrow> (unit, ('lin, 'cmap) frame) prog" where
  "window_loop env cx =
     thn (lift (as_index (window cx))) (\<lambda>w.
     thn (get realimages) (\<lambda>imgs.
     for_loop (window_body env cx w) [1 - w .. int (length imgs) - 1]))"

definition global_path ::
  "('lin, 'nodes, 'cmap) env \<Rightarrow> args \<Rightarrow> client option \<Rightarrow> addr \<Rightarrow> path list \<Rightarrow> (int, ('lin, 'cmap) frame) prog" where
  "global_path env a cl c files_in =
     thn (prepare env a cl c files_in) (\<lambda>cx.
     nxt (window_loop env cx) (ret 0))"

subsection \<open>\<^verbatim>\<open>main\<close>\<close>

definition header :: "string \<Rightarrow> string list" where
  "header celltype =
     [''file'', ''name''] @
     (if celltype = ''bacilli''
      then [''x'', ''y'', ''width'', ''length'', ''rotation'', ''split_alpha'', ''opacity'']
      else [])"

definition debug_header :: "string list" where
  "debug_header =
     [''window_start'', ''window_end'', ''pbad_total'', ''bad_count'', ''temperature'',
      ''total_cost_diff'', ''current_iteration'', ''total_iterations'']"

text \<open>\<^verbatim>\<open>finally: if lineagefile: lineagefile.close()\<close> (closing is taken to succeed).\<close>

definition finally_close :: "('a, ('lin, 'cmap) frame) prog \<Rightarrow> ('a, ('lin, 'cmap) frame) prog" where
  "finally_close p s =
     (case p s of
        (r, s') \<Rightarrow>
          (r, if lineagefile s' \<noteq> None then s'\<lparr>trace := trace s' @ [LineageClosed]\<rparr> else s'))"

text \<open>
  Lines 227 to 327 under the \<^verbatim>\<open>try\<close>: the result is \<open>Some 0\<close> for the \<^verbatim>\<open>return 0\<close> of the
  global path and \<open>None\<close> when the local path falls out of the \<^verbatim>\<open>try\<close>.
\<close>

definition tracked ::
  "('lin, 'nodes, 'cmap) env \<Rightarrow> args \<Rightarrow> client option \<Rightarrow> addr \<Rightarrow> string \<Rightarrow> path list
     \<Rightarrow> (int option, ('lin, 'cmap) frame) prog" where
  "tracked env a cl c celltype files_in =
     nxt (check (open_write env (path_join (output_dir a) ''lineage.csv'')))
    (nxt (modify (\<lambda>s. s\<lparr>lineagefile := Some (path_join (output_dir a) ''lineage.csv'')\<rparr>))
    (nxt (emit (LineageOpened (path_join (output_dir a) ''lineage.csv'')))
    (nxt (emit (LineageLine (join_comma (header celltype))))
    (nxt (case debug a of
            None \<Rightarrow> ret ()
          | Some d \<Rightarrow>
              nxt (check (open_write env (path_join d ''debug.csv'')))
                  (emit (DebugLine (path_join d ''debug.csv'') (join_comma debug_header))))
         (if global_optimization a then
            thn (global_path env a cl c files_in) (\<lambda>r. ret (Some r))
          else
            thn (get store) (\<lambda>st.
            nxt (check (local_optimize env files_in (st ! c) a cl))
           (nxt (emit LocalOptimized) (ret None))))))))"

text \<open>
  After the \<^verbatim>\<open>try\<close>: the elapsed time is printed. \<^verbatim>\<open>client and not cluster\<close> is false in
  every case (without parallelism \<^verbatim>\<open>client\<close> is \<^verbatim>\<open>None\<close>; with it \<^verbatim>\<open>cluster\<close> is a cluster
  object or a string that is not empty), so \<^verbatim>\<open>client.shutdown()\<close> is never called.
\<close>

definition after_files ::
  "('lin, 'nodes, 'cmap) env \<Rightarrow> args \<Rightarrow> client option \<Rightarrow> addr \<Rightarrow> string \<Rightarrow> path list
     \<Rightarrow> (int, ('lin, 'cmap) frame) prog" where
  "after_files env a cl c celltype files_in =
     thn (finally_close (tracked env a cl c celltype files_in)) (\<lambda>r.
       case r of
         Some v \<Rightarrow> ret v
       | None \<Rightarrow>
           nxt (emit (Stdout [PFloat (float_sub (arith env) (time_end env) (time_start env)),
                              PStr '' seconds'']))
               (ret 0))"

text \<open>
  \<^verbatim>\<open>main(args)\<close>: \<open>None\<close> when the listing of the input files never ends, else the value
  returned or the exception raised, with the state the run ended in.
\<close>

definition main ::
  "('lin, 'nodes, 'cmap) env \<Rightarrow> args \<Rightarrow> ((error + int) \<times> ('lin, 'cmap) frame) option" where
  "main env a =
     (case before_files env a (init_frame a) of
        (Inl e, s) \<Rightarrow> Some (Inl e, s)
      | (Inr (cl, c, celltype), s) \<Rightarrow>
          (case get_inputfiles (files env) a of
             None \<Rightarrow> None
           | Some (Inl e) \<Rightarrow> Some (Inl e, s)
           | Some (Inr files_in) \<Rightarrow> Some (after_files env a cl c celltype files_in s)))"

section \<open>The derived configuration, in the words of the specification\<close>

text \<open>
  The ten keys \<^verbatim>\<open>modification.{x,y,width,length,rotation}.{mu,sigma}\<close>, written out from
  the five parameters and the two moments.
\<close>

definition ten_keys :: "string list" where
  "ten_keys =
     concat (map (\<lambda>p. map (\<lambda>m. ''modification.'' @ p @ ''.'' @ m) [''mu'', ''sigma''])
               [''x'', ''y'', ''width'', ''length'', ''rotation''])"

text \<open>
  Each of the ten keys holds the configured value divided by the iterations per cell,
  which is what \<^verbatim>\<open>value / iteration_per_cell\<close> returns; any other entry is unchanged.
\<close>

definition scaled :: "fpu \<Rightarrow> pyval \<Rightarrow> string \<times> pyval \<Rightarrow> string \<times> pyval" where
  "scaled fp ipc kv =
     (fst kv, if fst kv \<in> set ten_keys then projr (truediv fp (snd kv) ipc) else snd kv)"

section \<open>The distance map, in the words of the specification\<close>


section \<open>A zero iteration budget\<close>



section \<open>Reading a trace\<close>

text \<open>The part of a trace that a property is about: the events that \<open>f\<close> selects, in order.\<close>

definition pick :: "(event \<Rightarrow> 'b option) \<Rightarrow> event list \<Rightarrow> 'b list" where
  "pick f tr = List.map_filter f tr"





fun mapped :: "event \<Rightarrow> int option" where
  "mapped (DistMapped i dm) = Some i"
| "mapped _ = None"



section \<open>What a statement adds to a trace\<close>

text \<open>
  A statement is silent for a selection \<open>f\<close> of events when it adds no selected event
  from a state in which \<open>I\<close> holds, and leaves \<open>I\<close> in place. It steps through \<open>ex\<close> when
  the selected events that it adds are a prefix of \<open>ex\<close>, and all of \<open>ex\<close> when it returns
  (an exception cuts the list short). \<open>I\<close> admits an event that keeps it when added to the
  trace.
\<close>

definition silent ::
  "(('lin, 'cmap) frame \<Rightarrow> bool) \<Rightarrow> (event \<Rightarrow> 'b option) \<Rightarrow> ('a, ('lin, 'cmap) frame) prog \<Rightarrow> bool" where
  "silent I f p =
     (\<forall>s r s'. I s \<longrightarrow> p s = (r, s') \<longrightarrow> I s' \<and> pick f (trace s') = pick f (trace s))"

definition steps ::
  "(('lin, 'cmap) frame \<Rightarrow> bool) \<Rightarrow> (event \<Rightarrow> 'b option) \<Rightarrow> ('a, ('lin, 'cmap) frame) prog \<Rightarrow> 'b list \<Rightarrow> bool" where
  "steps I f p ex =
     (\<forall>s r s'. I s \<longrightarrow> p s = (r, s') \<longrightarrow>
        I s' \<and> (\<exists>xs. pick f (trace s') = pick f (trace s) @ xs \<and> prefix xs ex
                  \<and> ((\<exists>v. r = Inr v) \<longrightarrow> xs = ex)))"


named_theorems silent_intros


text \<open>
  A selection is plain when it skips the events of the loop that are no subject of a
  claim, and takes from a distance map, a saved frame and an optimised window only the
  indices.
\<close>

definition plain ::
  "(event \<Rightarrow> 'b option) \<Rightarrow> (int \<Rightarrow> 'b list) \<Rightarrow> (int \<Rightarrow> 'b list) \<Rightarrow> (int \<Rightarrow> int \<Rightarrow> 'b list) \<Rightarrow> bool" where
  "plain f d c g =
     ((\<forall>x xs. f (Stdout (PStr x # xs)) = None) \<and> f CopiedForward = None
      \<and> (\<forall>i. f (Padded i) = None) \<and> (\<forall>a b. f (AutoTemp a b) = None)
      \<and> (\<forall>p. f (ImageSaved p) = None)
      \<and> (\<forall>i dm. pick f [DistMapped i dm] = d i)
      \<and> (\<forall>n i. pick f [LineageSaved n i] = c i)
      \<and> (\<forall>a b x. pick f [Optimized a b x] = g a b))"

text \<open>
  The selected events of the iteration \<open>ws\<close> of the loop over \<open>n\<close> frames with the window
  \<open>w\<close>, when nothing raises.
\<close>

definition expected ::
  "(event \<Rightarrow> 'b option) \<Rightarrow> (int \<Rightarrow> 'b list) \<Rightarrow> (int \<Rightarrow> 'b list) \<Rightarrow> (int \<Rightarrow> int \<Rightarrow> 'b list)
     \<Rightarrow> ctx \<Rightarrow> nat \<Rightarrow> int \<Rightarrow> int \<Rightarrow> 'b list" where
  "expected f d c g cx n w ws =
     pick f [Stdout [PInt ws, PInt (ws + w)]]
     @ (if ws + w \<le> int n
        then pick f [Synthesized (ws + w - 1)] @ (if useDistanceObjective cx then d (ws + w - 1) else [])
        else [])
     @ (if sim_start cx \<le> ws then g ws (ws + w) else [])
     @ (if 0 \<le> ws then c ws else [])"

section \<open>A concrete run\<close>

text \<open>
  Five frames \<^verbatim>\<open>img0.png\<close> to \<^verbatim>\<open>img4.png\<close> of one row of two pixels, a window of three
  frames, the distance objective. The lineage is the number of its frames (two to start
  with), the nodes of a frame are its index, and every collaborator succeeds; the
  distance transform of one row is 0 on the background and 1 on the single pixel beside it.

  The arithmetic of the run is exact on finite operands. Every number of the run is a
  small dyadic fraction and so is every quotient, product, sum and difference that the
  run computes: there the exact result is the double that the machine computes.
\<close>

declare get_inputfiles_loop.simps [code]

declare image_path_loop.simps [code]

fun exact_op :: "(rat \<Rightarrow> rat \<Rightarrow> rat) \<Rightarrow> pyfloat \<Rightarrow> pyfloat \<Rightarrow> pyfloat" where
  "exact_op f (Finite x) (Finite y) = Finite (f x y)"
| "exact_op f x y = NaN"

fun exact_div :: "pyfloat \<Rightarrow> pyfloat \<Rightarrow> pyfloat" where
  "exact_div (Finite x) (Finite y) =
     (if y \<noteq> 0 then Finite (x / y) else if 0 < x then PosInf else if x < 0 then NegInf else NaN)"
| "exact_div x y = NaN"

definition demo_fpu :: fpu where
  "demo_fpu =
     \<lparr> int_to_float = (\<lambda>i. Some (Finite (of_int i))),
       int_truediv = (\<lambda>i j. Some (Finite (of_int i / of_int j))),
       float_truediv = exact_div,
       float_mul = exact_op (\<lambda>x y. x * y),
       float_add = exact_op (\<lambda>x y. x + y),
       float_sub = exact_op (\<lambda>x y. x - y) \<rparr>"

text \<open>A perturbation section with the ten keys, between two keys that are not scaled.\<close>

definition demo_perturbation :: "(string \<times> pyval) list" where
  "demo_perturbation =
     [(''prob.split'', PFloat (Finite (1 / 8))),
      (''modification.x.mu'', PInt 0),
      (''modification.y.mu'', PInt 1),
      (''modification.width.mu'', PFloat (Finite (1 / 4))),
      (''modification.length.mu'', PInt (- 1)),
      (''modification.rotation.mu'', PFloat (Finite 0)),
      (''modification.x.sigma'', PFloat (Finite 3)),
      (''modification.y.sigma'', PFloat (Finite 5)),
      (''modification.width.sigma'', PFloat (Finite (1 / 2))),
      (''modification.length.sigma'', PInt 6),
      (''modification.rotation.sigma'', PFloat (Finite (1 / 8))),
      (''modification.opacity.sigma'', PInt 7)]"

definition demo_config :: "pyval \<Rightarrow> (string \<times> pyval) list \<Rightarrow> pyval" where
  "demo_config ipc simulation =
     PDict [(''global.cellType'', PStr ''Bacilli''),
            (''global.pixelsPerMicron'', PFloat (Finite 2)),
            (''global.framesPerSecond'', PInt 1),
            (''simulation'', PDict simulation),
            (''perturbation'', PDict demo_perturbation),
            (''iteration_per_cell'', ipc),
            (''global_optimizer.window_size'', PInt 3),
            (''overlap.cost'', PFloat (Finite 1)),
            (''cell.importance'', PFloat (Finite 1)),
            (''residual.vmin'', PInt (- 1)),
            (''residual.vmax'', PInt 1),
            (''bacilli.distanceCostDivisor'', PInt 4)]"

definition demo_env :: "pyval \<Rightarrow> (nat, nat, unit) env" where
  "demo_env cfg =
     \<lparr> files = demo_fs (map frame_path [0, 1, 2, 3, 4]),
       arith = demo_fpu,
       time_start = Finite 0, time_end = Finite 1,
       jsonc_load = (\<lambda>p. Inr cfg),
       checkconfig = (\<lambda>c. None),
       is_dir = (\<lambda>p. True),
       mkdir = (\<lambda>p. None),
       open_write = (\<lambda>p. None),
       np_random_seed = (\<lambda>n. None),
       dask_client = (\<lambda>c. None),
       load_image = (\<lambda>p. Inr (NDArray [1, 2] [Finite (3 / 4), Finite (1 / 4)])),
       create_lineage = (\<lambda>fs imgs c a. Inr 2),
       frames_len = (\<lambda>l. l),
       frame_nodes = (\<lambda>l i. i),
       frame_simulation_config = (\<lambda>l i. PDict [(''background.color'', PFloat (Finite 0))]),
       shift_cells = (\<lambda>i p l. Inr l),
       copy_forward = (\<lambda>l. Inr (Suc l)),
       np_pad = (\<lambda>img p bg. Inr img),
       generate_synthetic_image = (\<lambda>n sh c. Inr (NDArray [1, 2] [Finite 1, Finite 0], ())),
       distance_transform_edt =
         (\<lambda>m. Inr (arr_map (\<lambda>b. if b then Finite 1 else Finite 0) m)),
       np_divide_other = (\<lambda>d c. Inl TypeError),
       auto_temp_schedule = (\<lambda>fs l ri si cm dm ws we a c. Inr (Finite 10, Finite 1)),
       auto_temp_schedule_frame = (\<lambda>we n. Inr False),
       dist_objective = (\<lambda>ri si dm cm oc. Inr (Finite 0)),
       objective = (\<lambda>ri si cm oc ci. Inr (Finite 0)),
       global_optimize = (\<lambda>cost fs l ri si cm dm ws we a c ipc cl. Inr (l, si, dm, cm)),
       save_lineage = (\<lambda>n nodes. None),
       make_colormap = (\<lambda>lo hi. None),
       save_bestfit = (\<lambda>p img. None),
       save_overlay = (\<lambda>p img nodes. None),
       save_residual = (\<lambda>p ri si lo hi. None),
       local_optimize = (\<lambda>fs c a cl. None) \<rparr>"





section \<open>Properties of the frame loaders\<close>

lemma get_inputfiles_loop_open_end:
  assumes fmt: "\<And>j. format_input fs pat j = Inr (file_of j)"
    and avail: "\<And>j. i \<le> j \<Longrightarrow> j < k \<Longrightarrow> is_file fs (file_of j)"
    and miss: "\<not> is_file fs (file_of k)"
    and fl: "fl < 0" and ff: "0 \<le> ff" "ff \<le> i" "ff < k" and ik: "i \<le> k"
  shows "get_inputfiles_loop fs pat ff fl i acc = Some (Inr (acc @ map file_of [i .. k - 1]))"
  using avail ff(2) ik
proof (induction "nat (k - i)" arbitrary: i acc)
  case 0
  then have "i = k" by simp
  with fmt miss fl ff show ?case
    by (subst get_inputfiles_loop.simps) simp
next
  case (Suc n)
  then have lt: "i < k" by linarith
  then have here: "is_file fs (file_of i)" using Suc.prems(1) by simp
  have ne: "i \<noteq> fl" using fl ff Suc.prems(2) by linarith
  have rest: "get_inputfiles_loop fs pat ff fl (i + 1) (acc @ [file_of i])
      = Some (Inr ((acc @ [file_of i]) @ map file_of [i + 1 .. k - 1]))"
  proof (rule Suc.hyps(1))
    show "n = nat (k - (i + 1))" using Suc.hyps(2) by linarith
    show "\<And>j. i + 1 \<le> j \<Longrightarrow> j < k \<Longrightarrow> is_file fs (file_of j)"
      using Suc.prems(1) by simp
    show "ff \<le> i + 1" using Suc.prems(2) by simp
    show "i + 1 \<le> k" using lt by simp
  qed
  have unfold: "[i .. k - 1] = i # [i + 1 .. k - 1]"
    using lt by (simp add: upto_rec1)
  show ?case
    by (subst get_inputfiles_loop.simps) (simp add: fmt here ne rest unfold)
qed

lemma get_inputfiles_loop_closed_end:
  assumes fmt: "\<And>j. format_input fs pat j = Inr (file_of j)"
    and avail: "\<And>j. i \<le> j \<Longrightarrow> j < k \<Longrightarrow> is_file fs (file_of j)"
    and miss: "\<not> is_file fs (file_of k)"
    and fl: "0 \<le> fl" "k \<le> fl" and ik: "i \<le> k"
  shows "get_inputfiles_loop fs pat ff fl i acc = Some (Inl (not_found (file_of k)))"
  using avail ik
proof (induction "nat (k - i)" arbitrary: i acc)
  case 0
  then have "i = k" by simp
  with fmt miss fl show ?case
    by (subst get_inputfiles_loop.simps) simp
next
  case (Suc n)
  then have lt: "i < k" by linarith
  then have here: "is_file fs (file_of i)" using Suc.prems(1) by simp
  have ne: "i \<noteq> fl" using fl lt by linarith
  have rest: "get_inputfiles_loop fs pat ff fl (i + 1) (acc @ [file_of i])
      = Some (Inl (not_found (file_of k)))"
  proof (rule Suc.hyps(1))
    show "n = nat (k - (i + 1))" using Suc.hyps(2) by linarith
    show "\<And>j. i + 1 \<le> j \<Longrightarrow> j < k \<Longrightarrow> is_file fs (file_of j)"
      using Suc.prems(1) by simp
    show "i + 1 \<le> k" using lt by simp
  qed
  show ?case
    by (subst get_inputfiles_loop.simps) (simp add: fmt here ne rest)
qed

lemma input_file_stack_all:
  assumes fmt: "\<And>z. (if zs = 1 then format_input fs pat j else format_input_z fs pat j z) = Inr (file_of z)"
    and avail: "\<And>z. z \<in> set zl \<Longrightarrow> is_file fs (file_of z)"
  shows "input_file_stack fs pat zs j zl acc = Inr (acc @ map file_of zl)"
  using avail
proof (induction zl arbitrary: acc)
  case Nil
  show ?case by simp
next
  case (Cons z zl)
  have "is_file fs (file_of z)" using Cons.prems by simp
  moreover have "input_file_stack fs pat zs j zl (acc @ [file_of z]) = Inr ((acc @ [file_of z]) @ map file_of zl)"
    using Cons.prems by (intro Cons.IH) simp
  ultimately show ?case using fmt [of z] by (simp split: if_splits)
qed

lemma input_file_stack_missing:
  assumes fmt: "\<And>z. (if zs = 1 then format_input fs pat j else format_input_z fs pat j z) = Inr (file_of z)"
    and miss: "\<exists>z \<in> set zl. \<not> is_file fs (file_of z)"
  shows "\<exists>p. input_file_stack fs pat zs j zl acc = Inl (not_found p)"
  using miss
proof (induction zl arbitrary: acc)
  case Nil
  then show ?case by simp
next
  case (Cons z zl)
  show ?case
  proof (cases "is_file fs (file_of z)")
    case True
    then have "\<exists>z \<in> set zl. \<not> is_file fs (file_of z)" using Cons.prems by auto
    then obtain p where "input_file_stack fs pat zs j zl (acc @ [file_of z]) = Inl (not_found p)"
      using Cons.IH by blast
    then show ?thesis using True fmt [of z] by (auto split: if_splits)
  next
    case False
    then show ?thesis using fmt [of z] by (auto split: if_splits)
  qed
qed

lemma image_path_loop_missing:
  assumes fmt: "\<And>j z. (if zs = 1 then format_input fs pat j else format_input_z fs pat j z) = Inr (file_of j z)"
    and avail: "\<And>j z. i \<le> j \<Longrightarrow> j < k \<Longrightarrow> 0 \<le> z \<Longrightarrow> z < zs \<Longrightarrow> is_file fs (file_of j z)"
    and miss: "\<exists>z. 0 \<le> z \<and> z < zs \<and> \<not> is_file fs (file_of k z)"
    and run: "lf = -1 \<or> k \<le> lf" and ik: "i \<le> k"
  shows "\<exists>p. image_path_loop fs pat zs lf i acc
           = Some (Some (not_found p), acc @ map (\<lambda>j. map (file_of j) [0 .. zs - 1]) [i .. k - 1])"
  using avail ik
proof (induction "nat (k - i)" arbitrary: i acc)
  case 0
  then have ik: "i = k" by simp
  have "\<exists>z \<in> set [0 .. zs - 1]. \<not> is_file fs (file_of k z)"
    using miss by auto
  then obtain p where "input_file_stack fs pat zs k [0 .. zs - 1] [] = Inl (not_found p)"
    using input_file_stack_missing [of zs fs pat k "file_of k" "[0 .. zs - 1]" "[]"] fmt by blast
  then show ?case using ik run
    by (subst image_path_loop.simps) auto
next
  case (Suc n)
  then have lt: "i < k" by linarith
  have stack: "input_file_stack fs pat zs i [0 .. zs - 1] [] = Inr ([] @ map (file_of i) [0 .. zs - 1])"
    using fmt Suc.prems(1) lt by (intro input_file_stack_all) auto
  obtain p where rest: "image_path_loop fs pat zs lf (i + 1) (acc @ [map (file_of i) [0 .. zs - 1]])
      = Some (Some (not_found p),
          (acc @ [map (file_of i) [0 .. zs - 1]]) @ map (\<lambda>j. map (file_of j) [0 .. zs - 1]) [i + 1 .. k - 1])"
  proof -
    have "\<exists>p. image_path_loop fs pat zs lf (i + 1) (acc @ [map (file_of i) [0 .. zs - 1]])
      = Some (Some (not_found p),
          (acc @ [map (file_of i) [0 .. zs - 1]]) @ map (\<lambda>j. map (file_of j) [0 .. zs - 1]) [i + 1 .. k - 1])"
    proof (rule Suc.hyps(1))
      show "n = nat (k - (i + 1))" using Suc.hyps(2) by linarith
      show "\<And>j z. i + 1 \<le> j \<Longrightarrow> j < k \<Longrightarrow> 0 \<le> z \<Longrightarrow> z < zs \<Longrightarrow> is_file fs (file_of j z)"
        using Suc.prems(1) by simp
      show "i + 1 \<le> k" using lt by simp
    qed
    then show ?thesis using that by blast
  qed
  have unfold: "[i .. k - 1] = i # [i + 1 .. k - 1]"
    using lt by (simp add: upto_rec1)
  have go: "lf = -1 \<or> i \<le> lf" using run lt by auto
  show ?case
    by (subst image_path_loop.simps) (use go stack rest unfold in auto)
qed

lemma get_image_file_paths_missing:
  assumes fmt: "\<And>j z. (if zs = 1 then format_input fs pat j else format_input_z fs pat j z) = Inr (file_of j z)"
    and avail: "\<And>j z. ff \<le> j \<Longrightarrow> j < k \<Longrightarrow> 0 \<le> z \<Longrightarrow> z < zs \<Longrightarrow> is_file fs (file_of j z)"
    and miss: "\<exists>z. 0 \<le> z \<and> z < zs \<and> \<not> is_file fs (file_of k z)"
    and ik: "ff \<le> k"
  shows "lf = -1 \<Longrightarrow> get_image_file_paths fs pat ff lf zs
           = Some (Inr (map (\<lambda>j. map (file_of j) [0 .. zs - 1]) [ff .. k - 1]))"
    and "0 \<le> lf \<Longrightarrow> k \<le> lf \<Longrightarrow> \<exists>p. get_image_file_paths fs pat ff lf zs = Some (Inl (not_found p))"
proof -
  assume lf: "lf = -1"
  obtain p where "image_path_loop fs pat zs lf ff []
      = Some (Some (not_found p), [] @ map (\<lambda>j. map (file_of j) [0 .. zs - 1]) [ff .. k - 1])"
    using image_path_loop_missing [of zs fs pat file_of ff k lf "[]"] fmt avail miss ik lf by blast
  then show "get_image_file_paths fs pat ff lf zs
           = Some (Inr (map (\<lambda>j. map (file_of j) [0 .. zs - 1]) [ff .. k - 1]))"
    using lf by (simp add: get_image_file_paths_def not_found_def)
next
  assume lf: "0 \<le> lf" "k \<le> lf"
  obtain p where "image_path_loop fs pat zs lf ff []
      = Some (Some (not_found p), [] @ map (\<lambda>j. map (file_of j) [0 .. zs - 1]) [ff .. k - 1])"
    using image_path_loop_missing [of zs fs pat file_of ff k lf "[]"] fmt avail miss ik lf by blast
  moreover have "int (length [ff .. k - 1]) \<noteq> lf - ff + 1"
    using lf ik by simp
  ultimately show "\<exists>p. get_image_file_paths fs pat ff lf zs = Some (Inl (not_found p))"
    using lf by (auto simp add: get_image_file_paths_def not_found_def)
qed

text \<open>
  Claim C5 says that with \<open>frame_last = -1\<close> a missing file always ends the listing
  gracefully. In \<^verbatim>\<open>get_inputfiles\<close> the guard \<^verbatim>\<open>args.frame_first != i\<close> excludes the
  first frame: with an empty directory, first frame 0 and no last frame the call raises.
\<close>

theorem first_frame_missing_raises:
  "get_inputfiles (demo_fs []) demo_args = Some (Inl (not_found ''img0.png''))
   \<and> frame_first demo_args = 0 \<and> frame_last demo_args = -1"
  by (simp add: get_inputfiles_def get_inputfiles_loop.simps demo_fs_def demo_args_def
      frame_path_def digit_def)

text \<open>
  Claim C5, as amended. Let the frames from \<open>frame_first\<close> up to \<open>k - 1\<close> be present and
  the file of frame \<open>k\<close> be missing. When a last frame is requested (\<open>frame_last \<ge> 0\<close>)
  and \<open>k\<close> is at or before it, both loaders raise the error "Input file not found".
  When no last frame is requested (\<open>frame_last = -1\<close>), \<^verbatim>\<open>get_inputfiles\<close> returns exactly
  the frames \<open>frame_first .. k - 1\<close> if \<open>k\<close> is after the first frame and raises if \<open>k\<close>
  is the first frame itself; \<^verbatim>\<open>get_image_file_paths\<close> (one slice per frame) returns the
  frames \<open>frame_first .. k - 1\<close>, the empty list when \<open>k\<close> is the first frame.
\<close>

theorem missing_input_frame:
  assumes fmt: "\<And>j. format_input fs (input a) j = Inr (file_of j)"
    and first: "0 \<le> frame_first a" "frame_first a \<le> k"
    and avail: "\<And>j. frame_first a \<le> j \<Longrightarrow> j < k \<Longrightarrow> is_file fs (file_of j)"
    and miss: "\<not> is_file fs (file_of k)"
  shows "(0 \<le> frame_last a \<and> k \<le> frame_last a \<longrightarrow>
            get_inputfiles fs a = Some (Inl (not_found (file_of k))))
       \<and> (frame_last a = -1 \<and> frame_first a < k \<longrightarrow>
            get_inputfiles fs a = Some (Inr (map file_of [frame_first a .. k - 1])))
       \<and> (frame_last a = -1 \<and> frame_first a = k \<longrightarrow>
            get_inputfiles fs a = Some (Inl (not_found (file_of k))))
       \<and> (0 \<le> frame_last a \<and> k \<le> frame_last a \<longrightarrow>
            (\<exists>p. get_image_file_paths fs (input a) (frame_first a) (frame_last a) 1
               = Some (Inl (not_found p))))
       \<and> (frame_last a = -1 \<longrightarrow>
            get_image_file_paths fs (input a) (frame_first a) (frame_last a) 1
               = Some (Inr (map (\<lambda>j. [file_of j]) [frame_first a .. k - 1])))"
proof (intro conjI impI)
  assume "0 \<le> frame_last a \<and> k \<le> frame_last a"
  then show "get_inputfiles fs a = Some (Inl (not_found (file_of k)))"
    using first get_inputfiles_loop_closed_end [of fs "input a" file_of "frame_first a" k "frame_last a" "frame_first a" "[]"]
      fmt avail miss
    by (simp add: get_inputfiles_def)
next
  assume "frame_last a = -1 \<and> frame_first a < k"
  then show "get_inputfiles fs a = Some (Inr (map file_of [frame_first a .. k - 1]))"
    using first get_inputfiles_loop_open_end [of fs "input a" file_of "frame_first a" k "frame_last a" "frame_first a" "[]"]
      fmt avail miss
    by (simp add: get_inputfiles_def)
next
  assume "frame_last a = -1 \<and> frame_first a = k"
  then show "get_inputfiles fs a = Some (Inl (not_found (file_of k)))"
    using first fmt miss
    by (simp add: get_inputfiles_def get_inputfiles_loop.simps)
next
  assume "0 \<le> frame_last a \<and> k \<le> frame_last a"
  then show "\<exists>p. get_image_file_paths fs (input a) (frame_first a) (frame_last a) 1
               = Some (Inl (not_found p))"
    using get_image_file_paths_missing(2) [of 1 fs "input a" "\<lambda>j z. file_of j" "frame_first a" k "frame_last a"]
      fmt avail miss first exI [of "\<lambda>z::int. 0 \<le> z \<and> z < 1 \<and> \<not> is_file fs (file_of k)" 0]
    by simp
next
  assume "frame_last a = -1"
  then show "get_image_file_paths fs (input a) (frame_first a) (frame_last a) 1
               = Some (Inr (map (\<lambda>j. [file_of j]) [frame_first a .. k - 1]))"
    using get_image_file_paths_missing(1) [of 1 fs "input a" "\<lambda>j z. file_of j" "frame_first a" k "frame_last a"]
      fmt avail miss first exI [of "\<lambda>z::int. 0 \<le> z \<and> z < 1 \<and> \<not> is_file fs (file_of k)" 0]
    by simp
qed

text \<open>
  The theorem at a directory holding frames 0 and 1 only: a run asked for frames 0 to 4
  fails at frame 2, a run with no last frame gets frames 0 and 1, and a run on an empty
  directory fails at frame 0.
\<close>

theorem missing_input_frame_witness:
  "get_inputfiles (demo_fs [frame_path 0, frame_path 1]) (demo_args\<lparr>frame_last := 4\<rparr>)
      = Some (Inl (not_found (frame_path 2)))
   \<and> get_inputfiles (demo_fs [frame_path 0, frame_path 1]) demo_args
      = Some (Inr [frame_path 0, frame_path 1])
   \<and> get_inputfiles (demo_fs []) demo_args = Some (Inl (not_found (frame_path 0)))
   \<and> get_image_file_paths (demo_fs [frame_path 0, frame_path 1]) ''img%d.png'' 0 (-1) 1
      = Some (Inr [[frame_path 0], [frame_path 1]])"
proof -
  let ?fs = "demo_fs [frame_path 0, frame_path 1]"
  have fmt: "\<And>a j. format_input ?fs (input a) j = Inr (frame_path j)"
    and fmt0: "\<And>a j. format_input (demo_fs []) (input a) j = Inr (frame_path j)"
    by (simp_all add: demo_fs_def)
  have avail: "\<And>j. 0 \<le> j \<Longrightarrow> j < 2 \<Longrightarrow> is_file ?fs (frame_path j)"
  proof -
    fix j :: int assume "0 \<le> j" "j < 2"
    then have "j = 0 \<or> j = 1" by linarith
    then show "is_file ?fs (frame_path j)" by (auto simp add: demo_fs_def)
  qed
  have miss: "\<not> is_file ?fs (frame_path 2)" and miss0: "\<not> is_file (demo_fs []) (frame_path 0)"
    by (simp_all add: demo_fs_def frame_path_def digit_def)
  have up: "[0 .. 1] = [0, 1::int]" by (simp add: upto.simps)
  have a: "frame_first demo_args = 0" "frame_last demo_args = -1" "input demo_args = ''img%d.png''"
    by (simp_all add: demo_args_def)
  have closed: "get_inputfiles ?fs (demo_args\<lparr>frame_last := 4\<rparr>) = Some (Inl (not_found (frame_path 2)))"
    using missing_input_frame [of ?fs "demo_args\<lparr>frame_last := 4\<rparr>" frame_path 2, OF fmt _ _ avail miss]
    by (simp add: a)
  have opened: "get_inputfiles ?fs demo_args = Some (Inr [frame_path 0, frame_path 1])
      \<and> get_image_file_paths ?fs ''img%d.png'' 0 (-1) 1 = Some (Inr [[frame_path 0], [frame_path 1]])"
    using missing_input_frame [of ?fs demo_args frame_path 2, OF fmt _ _ avail miss]
    by (simp add: a up)
  have first: "get_inputfiles (demo_fs []) demo_args = Some (Inl (not_found (frame_path 0)))"
    using missing_input_frame [of "demo_fs []" demo_args frame_path 0, OF fmt0 _ _ _ miss0]
    by (simp add: a)
  show ?thesis using closed opened first by simp
qed


section \<open>Properties of the driver\<close>

text \<open>
  Claim C10. When \<open>auto_temp\<close> is 1 and a start or an end temperature is given, \<^verbatim>\<open>main\<close>
  raises its exception at once: the run ends in the state it started in, with an empty
  trace (no client, no configuration read, no directory, no file, no frame).
\<close>

theorem manual_temperature_refused:
  assumes "auto_temp a = 1" and "start_temp a \<noteq> None \<or> end_temp a \<noteq> None"
  shows "main env a = Some (Inl temp_conflict, init_frame a)
         \<and> trace (init_frame a :: ('lin, 'cmap) frame) = [] \<and> store (init_frame a :: ('lin, 'cmap) frame) = []"
  using assms by (simp add: main_def before_files_def raise_def init_frame_def)

text \<open>The theorem at the command line \<^verbatim>\<open>-ts 5\<close> with the default \<open>auto_temp\<close>.\<close>

theorem manual_temperature_refused_witness:
  "main (demo_env (demo_config (PInt 2) [])) (demo_args\<lparr>start_temp := Some (Finite 5)\<rparr>)
     = Some (Inl temp_conflict, init_frame (demo_args\<lparr>start_temp := Some (Finite 5)\<rparr>))
   \<and> auto_temp (demo_args\<lparr>start_temp := Some (Finite 5)\<rparr>) = 1"
proof -
  have h1: "auto_temp (demo_args\<lparr>start_temp := Some (Finite 5)\<rparr>) = 1"
    by (simp add: demo_args_def)
  have h2: "start_temp (demo_args\<lparr>start_temp := Some (Finite 5)\<rparr>) \<noteq> None
            \<or> end_temp (demo_args\<lparr>start_temp := Some (Finite 5)\<rparr>) \<noteq> None"
    by simp
  show ?thesis
    using manual_temperature_refused [OF h1 h2, of "demo_env (demo_config (PInt 2) [])"] h1
    by blast
qed

subsection \<open>The derived annealing configuration\<close>

text \<open>The keys that the loop tests are the ten keys of the specification.\<close>

lemma ten_keys_eq: "set keys_to_modify = set ten_keys"
  by (simp add: keys_to_modify_def ten_keys_def insert_commute)

lemma update_middle:
  "distinct (map fst (xs @ (k, v) # ys)) \<Longrightarrow> AList.update k q (xs @ (k, v) # ys) = xs @ (k, q) # ys"
  by (induction xs) auto

lemma scale_perturbation_result:
  assumes "sa < length (store s)"
    and "store s ! sa = PDict ents"
    and "map_of ents ''perturbation'' = Some (PDict (pre @ items))"
    and "map_of ents ''iteration_per_cell'' = Some ipc"
    and "distinct (map fst (pre @ items))"
    and "\<forall>kv \<in> set items. fst kv \<in> set ten_keys \<longrightarrow> (\<exists>q. truediv fp (snd kv) ipc = Inr q)"
  shows "scale_perturbation fp sa items s =
           (Inr (), s\<lparr>store := (store s)[sa := PDict (AList.update ''perturbation''
                        (PDict (pre @ map (scaled fp ipc) items)) ents)]\<rparr>)"
  using assms
proof (induction items arbitrary: pre ents s)
  case Nil
  then have "(store s)[sa := PDict ents] = store s"
    by (metis list_update_id)
  with Nil show ?case
    by (simp add: ret_def AList.update_triv)
next
  case (Cons kv items)
  obtain k v where kv: "kv = (k, v)" by (cases kv)
  show ?case
  proof (cases "k \<in> set ten_keys")
    case False
    have "scale_perturbation fp sa items s =
           (Inr (), s\<lparr>store := (store s)[sa := PDict (AList.update ''perturbation''
                        (PDict ((pre @ [kv]) @ map (scaled fp ipc) items)) ents)]\<rparr>)"
      using Cons.prems by (intro Cons.IH) auto
    moreover have "scaled fp ipc kv = kv" using False kv by (simp add: scaled_def)
    ultimately show ?thesis using False kv
      by (simp add: nxt_def thn_def ret_def ten_keys_eq)
  next
    case True
    then obtain q where q: "truediv fp v ipc = Inr q" using Cons.prems(6) kv by auto
    let ?ents1 = "AList.update ''perturbation'' (PDict (pre @ (k, q) # items)) ents"
    let ?s1 = "s\<lparr>store := (store s)[sa := PDict ?ents1]\<rparr>"
    have upd: "AList.update k q (pre @ (k, v) # items) = pre @ (k, q) # items"
      using Cons.prems(5) kv by (intro update_middle) simp
    have step: "obj_setitem2 sa ''perturbation'' k q s = (Inr (), ?s1)"
      using Cons.prems(2,3) kv upd by (simp add: obj_setitem2_def getitem_def setitem_def)
    have rest: "scale_perturbation fp sa items ?s1 =
           (Inr (), ?s1\<lparr>store := (store ?s1)[sa := PDict (AList.update ''perturbation''
                        (PDict ((pre @ [(k, q)]) @ map (scaled fp ipc) items)) ?ents1)]\<rparr>)"
    proof (rule Cons.IH)
      show "sa < length (store ?s1)" using Cons.prems(1) by simp
      show "store ?s1 ! sa = PDict ?ents1" using Cons.prems(1) by simp
      show "map_of ?ents1 ''perturbation'' = Some (PDict ((pre @ [(k, q)]) @ items))"
        by (simp add: AList.update_conv')
      show "map_of ?ents1 ''iteration_per_cell'' = Some ipc"
        using Cons.prems(4) by (simp add: AList.update_conv')
      show "distinct (map fst ((pre @ [(k, q)]) @ items))"
        using Cons.prems(5) kv by simp
      show "\<forall>kv \<in> set items. fst kv \<in> set ten_keys \<longrightarrow> (\<exists>q. truediv fp (snd kv) ipc = Inr q)"
        using Cons.prems(6) by simp
    qed
    have ipc: "obj_getitem sa ''iteration_per_cell'' s = (Inr ipc, s)"
      using Cons.prems(2,4) by (simp add: obj_getitem_def getitem_def)
    have "scaled fp ipc kv = (k, q)" using True kv q by (simp add: scaled_def)
    then show ?thesis
      using True kv step rest q ipc
      by (simp add: nxt_def thn_def lift_def ten_keys_eq)
  qed
qed

text \<open>Whatever the loop does, it writes to the object \<open>sa\<close> only and to nothing outside.\<close>

lemma obj_setitem2_frame:
  assumes "obj_setitem2 sa k1 k2 v s = (r, s')"
  shows "trace s' = trace s \<and> length (store s') = length (store s)
         \<and> (\<forall>a. a \<noteq> sa \<longrightarrow> store s' ! a = store s ! a)"
  using assms
  by (auto simp add: obj_setitem2_def split: sum.splits)

lemma scale_perturbation_frame:
  assumes "scale_perturbation fp sa items s = (r, s')"
  shows "trace s' = trace s \<and> length (store s') = length (store s)
         \<and> (\<forall>a. a \<noteq> sa \<longrightarrow> store s' ! a = store s ! a)"
  using assms
proof (induction items arbitrary: s)
  case Nil
  then show ?case by (simp add: ret_def)
next
  case (Cons kv items)
  show ?case
  proof (cases "fst kv \<in> set keys_to_modify")
    case False
    then have "scale_perturbation fp sa items s = (r, s')"
      using Cons.prems by (simp add: nxt_def thn_def ret_def)
    then show ?thesis by (rule Cons.IH)
  next
    case True
    let ?step = "thn (obj_getitem sa ''iteration_per_cell'') (\<lambda>ipc.
            thn (lift (truediv fp (snd kv) ipc)) (\<lambda>q.
            obj_setitem2 sa ''perturbation'' (fst kv) q))"
    obtain r1 s1 where step: "?step s = (r1, s1)" by (cases "?step s")
    have fr1: "trace s1 = trace s \<and> length (store s1) = length (store s)
         \<and> (\<forall>a. a \<noteq> sa \<longrightarrow> store s1 ! a = store s ! a)"
    proof (cases "getitem (store s ! sa) ''iteration_per_cell''")
      case (Inl e)
      then show ?thesis using step by (auto simp add: thn_def obj_getitem_def)
    next
      case (Inr ipc)
      show ?thesis
      proof (cases "truediv fp (snd kv) ipc")
        case (Inl e)
        then show ?thesis using step Inr by (auto simp add: thn_def obj_getitem_def lift_def)
      next
        case q: (Inr q)
        then have "obj_setitem2 sa ''perturbation'' (fst kv) q s = (r1, s1)"
          using step Inr by (simp add: thn_def obj_getitem_def lift_def)
        then show ?thesis by (rule obj_setitem2_frame)
      qed
    qed
    show ?thesis
    proof (cases r1)
      case (Inl e)
      then have "s' = s1" using Cons.prems True step by (simp add: nxt_def thn_def)
      then show ?thesis using fr1 by simp
    next
      case (Inr u)
      then have "scale_perturbation fp sa items s1 = (r, s')"
        using Cons.prems True step by (simp add: nxt_def thn_def)
      then have "trace s' = trace s1 \<and> length (store s') = length (store s1)
         \<and> (\<forall>a. a \<noteq> sa \<longrightarrow> store s' ! a = store s1 ! a)" by (rule Cons.IH)
      then show ?thesis using fr1 by simp
    qed
  qed
qed

text \<open>
  Whatever lines 238 to 256 do, also when a division raises: no object that was in the
  store is changed, and nothing happens outside.
\<close>

lemma derive_sa_config_frame:
  assumes "derive_sa_config fp c s = (r, s')"
  shows "trace s' = trace s \<and> take (length (store s)) (store s') = store s"
proof -
  let ?sa = "length (store s)"
  let ?s1 = "s\<lparr>store := store s @ [store s ! c]\<rparr>"
  have copy: "deepcopy c s = (Inr ?sa, ?s1)"
    by (simp add: deepcopy_def new_object_def)
  have inner: "trace s' = trace ?s1 \<and> length (store s') = length (store ?s1)
         \<and> (\<forall>a. a \<noteq> ?sa \<longrightarrow> store s' ! a = store ?s1 ! a)"
  proof (cases "getitem (store ?s1 ! ?sa) ''perturbation''")
    case (Inl e)
    then have "s' = ?s1" using assms copy
      by (simp add: derive_sa_config_def thn_def obj_getitem_def)
    then show ?thesis by simp
  next
    case p: (Inr p)
    show ?thesis
    proof (cases "dict_items p")
      case (Inl e)
      then have "s' = ?s1" using assms copy p
        by (simp add: derive_sa_config_def thn_def obj_getitem_def lift_def)
      then show ?thesis by simp
    next
      case (Inr items)
      obtain r2 s2 where loop: "scale_perturbation fp ?sa items ?s1 = (r2, s2)"
        by (cases "scale_perturbation fp ?sa items ?s1")
      then have "s' = s2" using assms copy p Inr
        by (cases r2) (simp_all add: derive_sa_config_def thn_def nxt_def obj_getitem_def lift_def ret_def)
      then show ?thesis using scale_perturbation_frame [OF loop] by simp
    qed
  qed
  then have len: "length (store s') = Suc (length (store s))"
    and same: "\<forall>a < length (store s). store s' ! a = store s ! a"
    by (auto simp add: nth_append)
  have "take (length (store s)) (store s') = store s"
    using len same by (intro nth_equalityI) auto
  then show ?thesis using inner by simp
qed

lemma derive_sa_config_result:
  assumes "c < length (store s)"
    and "store s ! c = PDict ents"
    and "map_of ents ''perturbation'' = Some (PDict pert)"
    and "distinct (map fst pert)"
    and "map_of ents ''iteration_per_cell'' = Some ipc"
    and "\<forall>kv \<in> set pert. fst kv \<in> set ten_keys \<longrightarrow> (\<exists>q. truediv fp (snd kv) ipc = Inr q)"
  shows "derive_sa_config fp c s =
           (Inr (length (store s)),
            s\<lparr>store := store s @ [PDict (AList.update ''perturbation'' (PDict (map (scaled fp ipc) pert)) ents)]\<rparr>)"
proof -
  let ?sa = "length (store s)"
  let ?s1 = "s\<lparr>store := store s @ [PDict ents]\<rparr>"
  have copy: "deepcopy c s = (Inr ?sa, ?s1)"
    using assms(2) by (simp add: deepcopy_def new_object_def)
  have loop: "scale_perturbation fp ?sa pert ?s1 =
           (Inr (), ?s1\<lparr>store := (store ?s1)[?sa := PDict (AList.update ''perturbation''
                        (PDict ([] @ map (scaled fp ipc) pert)) ents)]\<rparr>)"
    using assms by (intro scale_perturbation_result) auto
  show ?thesis
    using copy loop assms(3)
    by (simp add: derive_sa_config_def thn_def nxt_def ret_def lift_def obj_getitem_def
        getitem_def dict_items_def)
qed

text \<open>
  Claim C3. Let \<^verbatim>\<open>config\<close> (the object at address \<open>c\<close>) be a dictionary whose
  \<^verbatim>\<open>perturbation\<close> entry is a dictionary and which has an \<^verbatim>\<open>iteration_per_cell\<close>, and
  let \<^verbatim>\<open>value / iteration_per_cell\<close> return, with no exception, for the value of each of
  the ten keys \<^verbatim>\<open>modification.{x,y,width,length,rotation}.{mu,sigma}\<close> that is there. Then
  lines 238 to 256 return a new object \<^verbatim>\<open>sa_config\<close>; every object that was in the
  store, \<^verbatim>\<open>config\<close> among them, is as it was; nothing has happened outside (the trace is
  unchanged); the \<^verbatim>\<open>perturbation\<close> entry of \<^verbatim>\<open>sa_config\<close> holds, key by key and in the
  same order, the quotient \<^verbatim>\<open>value / iteration_per_cell\<close> for the ten keys and the
  original value for every other key; every other entry of \<^verbatim>\<open>sa_config\<close> is the one of
  \<^verbatim>\<open>config\<close>; and all the rest of the global path (the images, the lineage, the window
  loop with its optimisations) runs from that state with the derived configuration, so
  no optimisation runs before it is made.
\<close>

theorem derived_configuration:
  assumes "c < length (store s)"
    and "store s ! c = PDict ents"
    and "map_of ents ''perturbation'' = Some (PDict pert)"
    and "distinct (map fst pert)"
    and "map_of ents ''iteration_per_cell'' = Some ipc"
    and "\<forall>kv \<in> set pert. fst kv \<in> set ten_keys \<longrightarrow> (\<exists>q. truediv (arith env) (snd kv) ipc = Inr q)"
  shows "\<exists>s'. derive_sa_config (arith env) c s = (Inr (length (store s)), s')
           \<and> take (length (store s)) (store s') = store s
           \<and> store s' ! c = PDict ents
           \<and> trace s' = trace s
           \<and> getitem (store s' ! length (store s)) ''perturbation''
               = Inr (PDict (map (scaled (arith env) ipc) pert))
           \<and> (\<forall>k. k \<noteq> ''perturbation'' \<longrightarrow>
                 getitem (store s' ! length (store s)) k = getitem (PDict ents) k)
           \<and> prepare env a cl c fs s = prepare_loop env a cl fs (length (store s)) s'"
proof -
  let ?ents' = "AList.update ''perturbation'' (PDict (map (scaled (arith env) ipc) pert)) ents"
  have run: "derive_sa_config (arith env) c s
     = (Inr (length (store s)), s\<lparr>store := store s @ [PDict ?ents']\<rparr>)"
    using assms by (rule derive_sa_config_result)
  have "prepare env a cl c fs s
     = prepare_loop env a cl fs (length (store s)) (s\<lparr>store := store s @ [PDict ?ents']\<rparr>)"
    using run by (simp add: prepare_def thn_def)
  then show ?thesis
    using run assms(1,2)
    by (auto simp add: getitem_def AList.update_conv' nth_append)
qed

text \<open>
  The theorem at a configuration with 2 iterations per cell, all of the ten keys and
  two other keys: \<^verbatim>\<open>modification.y.mu\<close> 1 becomes 0.5, \<^verbatim>\<open>modification.x.sigma\<close> 3.0 becomes
  1.5, and so on; \<^verbatim>\<open>prob.split\<close> stays 0.125 and \<^verbatim>\<open>modification.opacity.sigma\<close> stays 7.
\<close>

theorem derived_configuration_witness:
  "fst (derive_sa_config demo_fpu 0
          ((init_frame demo_args :: (nat, unit) frame)\<lparr>store := [demo_config (PInt 2) []]\<rparr>)) = Inr 1
   \<and> store (snd (derive_sa_config demo_fpu 0
          ((init_frame demo_args :: (nat, unit) frame)\<lparr>store := [demo_config (PInt 2) []]\<rparr>))) ! 0
       = demo_config (PInt 2) []
   \<and> getitem (store (snd (derive_sa_config demo_fpu 0
          ((init_frame demo_args :: (nat, unit) frame)\<lparr>store := [demo_config (PInt 2) []]\<rparr>))) ! 1)
         ''perturbation''
       = Inr (PDict
           [(''prob.split'', PFloat (Finite (1 / 8))),
            (''modification.x.mu'', PFloat (Finite 0)),
            (''modification.y.mu'', PFloat (Finite (1 / 2))),
            (''modification.width.mu'', PFloat (Finite (1 / 8))),
            (''modification.length.mu'', PFloat (Finite (- 1 / 2))),
            (''modification.rotation.mu'', PFloat (Finite 0)),
            (''modification.x.sigma'', PFloat (Finite (3 / 2))),
            (''modification.y.sigma'', PFloat (Finite (5 / 2))),
            (''modification.width.sigma'', PFloat (Finite (1 / 4))),
            (''modification.length.sigma'', PFloat (Finite 3)),
            (''modification.rotation.sigma'', PFloat (Finite (1 / 16))),
            (''modification.opacity.sigma'', PInt 7)])"
proof -
  let ?s = "(init_frame demo_args :: (nat, unit) frame)\<lparr>store := [demo_config (PInt 2) []]\<rparr>"
  let ?env = "demo_env (demo_config (PInt 2) [])"
  obtain ents where ents: "demo_config (PInt 2) [] = PDict ents"
    "map_of ents ''perturbation'' = Some (PDict demo_perturbation)"
    "map_of ents ''iteration_per_cell'' = Some (PInt 2)"
    by (simp add: demo_config_def)
  have fp: "arith ?env = demo_fpu" by (simp add: demo_env_def)
  have d: "distinct (map fst demo_perturbation)"
    by (simp add: demo_perturbation_def)
  have "\<forall>kv \<in> set demo_perturbation. fst kv \<in> set ten_keys
          \<longrightarrow> (\<exists>q. truediv (arith ?env) (snd kv) (PInt 2) = Inr q)"
    by (simp add: fp demo_perturbation_def ten_keys_def truediv_def to_double_def demo_fpu_def)
  then obtain s' where run: "derive_sa_config (arith ?env) 0 ?s = (Inr (length (store ?s)), s')"
    and kept: "store s' ! 0 = PDict ents"
    and pert: "getitem (store s' ! length (store ?s)) ''perturbation''
                 = Inr (PDict (map (scaled (arith ?env) (PInt 2)) demo_perturbation))"
    using derived_configuration [of 0 ?s ents demo_perturbation "PInt 2" ?env demo_args None "[]"] ents d
    by auto
  have "map (scaled demo_fpu (PInt 2)) demo_perturbation =
           [(''prob.split'', PFloat (Finite (1 / 8))),
            (''modification.x.mu'', PFloat (Finite 0)),
            (''modification.y.mu'', PFloat (Finite (1 / 2))),
            (''modification.width.mu'', PFloat (Finite (1 / 8))),
            (''modification.length.mu'', PFloat (Finite (- 1 / 2))),
            (''modification.rotation.mu'', PFloat (Finite 0)),
            (''modification.x.sigma'', PFloat (Finite (3 / 2))),
            (''modification.y.sigma'', PFloat (Finite (5 / 2))),
            (''modification.width.sigma'', PFloat (Finite (1 / 4))),
            (''modification.length.sigma'', PFloat (Finite 3)),
            (''modification.rotation.sigma'', PFloat (Finite (1 / 16))),
            (''modification.opacity.sigma'', PInt 7)]"
    by (simp add: demo_perturbation_def scaled_def ten_keys_def truediv_def to_double_def demo_fpu_def)
  then show ?thesis using run kept pert ents(1) fp by simp
qed

subsection \<open>A zero iteration budget\<close>









section \<open>The window loop\<close>

subsection \<open>Traces of the statements of the loop\<close>

lemma pick_Nil [simp]: "pick f [] = []"
  by (simp add: pick_def List.map_filter_simps)

lemma pick_Cons: "pick f (e # es) = (case f e of None \<Rightarrow> pick f es | Some x \<Rightarrow> x # pick f es)"
  by (cases "f e") (simp_all add: pick_def List.map_filter_simps)

lemma pick_append [simp]: "pick f (xs @ ys) = pick f xs @ pick f ys"
  by (induction xs) (simp_all add: pick_Cons split: option.splits)

lemma pick_single: "pick f [e] = (case f e of None \<Rightarrow> [] | Some x \<Rightarrow> [x])"
  by (cases "f e") (simp_all add: pick_Cons)

lemma silent_ret [silent_intros]: "silent I f (ret x)"
  by (simp add: silent_def ret_def)

lemma silent_raise [silent_intros]: "silent I f (raise e)"
  by (simp add: silent_def raise_def)





lemma silent_obj_getitem [silent_intros]: "silent I f (obj_getitem a k)"
  by (simp add: silent_def obj_getitem_def)



lemma silent_thn [silent_intros]:
  "silent I f m \<Longrightarrow> (\<And>x. silent I f (g x)) \<Longrightarrow> silent I f (thn m g)"
proof (unfold silent_def, intro allI impI)
  fix s r s'
  assume m: "\<forall>s r s'. I s \<longrightarrow> m s = (r, s') \<longrightarrow> I s' \<and> pick f (trace s') = pick f (trace s)"
    and g: "\<And>x. \<forall>s r s'. I s \<longrightarrow> g x s = (r, s') \<longrightarrow> I s' \<and> pick f (trace s') = pick f (trace s)"
    and I: "I s" and run: "thn m g s = (r, s')"
  obtain r1 s1 where ms: "m s = (r1, s1)" by (cases "m s")
  with m I have s1: "I s1" "pick f (trace s1) = pick f (trace s)" by blast+
  show "I s' \<and> pick f (trace s') = pick f (trace s)"
  proof (cases r1)
    case (Inl e)
    with ms run have "s' = s1" by (simp add: thn_def)
    with s1 show ?thesis by simp
  next
    case (Inr x)
    with ms run have "g x s1 = (r, s')" by (simp add: thn_def)
    with g s1 show ?thesis by metis
  qed
qed




lemma silent_for_loop [silent_intros]:
  "(\<And>i. silent I f (body i)) \<Longrightarrow> silent I f (for_loop body xs)"
proof (induction xs)
  case Nil
  show ?case by (simp add: silent_ret)
next
  case (Cons i xs)
  then show ?case by (simp add: silent_thn)
qed


lemma steps_raise: "steps I f (raise e) ex"
  by (simp add: steps_def raise_def)






























subsection \<open>The windows, the estimates, the jobs and the commits\<close>





lemma plain_mapped: "plain mapped (\<lambda>i. [i]) (\<lambda>i. []) (\<lambda>a b. [])"
  by (simp add: plain_def pick_single)









lemma expected_mapped:
  "expected mapped (\<lambda>i. [i]) (\<lambda>i. []) (\<lambda>a b. []) cx n w
     = (\<lambda>ws. if ws \<le> int n - w then (if useDistanceObjective cx then [ws + w - 1] else []) else [])"
  by (rule ext) (auto simp add: expected_def pick_single)








subsection \<open>The loop on the five frames\<close>










end
